theory Spec2Isabelle
  imports Main "HOL-Library.Word"
begin

unbundle bit_operations_syntax

section \<open>Machine types\<close>

type_synonym u8 = "8 word"
type_synonym u16 = "16 word"
type_synonym u32 = "32 word"

text \<open>The all-ones value \<open>~0\<close> that the code uses as "none" for every \<open>u32\<close> index.\<close>

abbreviation NONE32 :: u32 where
  "NONE32 \<equiv> NOT 0"

section \<open>Protocol registry\<close>

text \<open>The anonymous enums \<open>PROTO_*\<close> and \<open>PROTO_BIT_*\<close>.\<close>

definition PROTO_ARP :: nat where "PROTO_ARP = 0"
definition PROTO_ICMP4 :: nat where "PROTO_ICMP4 = 1"
definition PROTO_IGMP4 :: nat where "PROTO_IGMP4 = 2"
definition PROTO_OSPF2 :: nat where "PROTO_OSPF2 = 3"
definition PROTO_TCP :: nat where "PROTO_TCP = 4"
definition PROTO_UDP :: nat where "PROTO_UDP = 5"
definition PROTO_N_TOTAL :: nat where "PROTO_N_TOTAL = 6"

definition PROTO_BIT_ARP :: u32 where "PROTO_BIT_ARP = push_bit PROTO_ARP 1"
definition PROTO_BIT_ICMP4 :: u32 where "PROTO_BIT_ICMP4 = push_bit PROTO_ICMP4 1"
definition PROTO_BIT_IGMP4 :: u32 where "PROTO_BIT_IGMP4 = push_bit PROTO_IGMP4 1"
definition PROTO_BIT_OSPF2 :: u32 where "PROTO_BIT_OSPF2 = push_bit PROTO_OSPF2 1"
definition PROTO_BIT_TCP :: u32 where "PROTO_BIT_TCP = push_bit PROTO_TCP 1"
definition PROTO_BIT_UDP :: u32 where "PROTO_BIT_UDP = push_bit PROTO_UDP 1"

text \<open>
  The table \<open>proto_strings[PROTO_N_TOTAL]\<close>, in the order of its designated initialisers.
\<close>

definition proto_strings :: "string list" where
  "proto_strings = [''arp'', ''icmp4'', ''igmp4'', ''ospf2'', ''tcp'', ''udp'']"

text \<open>
  A value of type \<open>string\<close> stands for a C string: the bytes in front of the
  terminating NUL. \<open>strncmp a b n\<close> compares at most \<open>n\<close> bytes and stops at the NUL
  of either side; C fixes only the sign of the result, which is what the model returns.
\<close>

fun strncmp :: "string \<Rightarrow> string \<Rightarrow> nat \<Rightarrow> int" where
  "strncmp a b 0 = 0"
| "strncmp [] [] (Suc n) = 0"
| "strncmp [] (y # ys) (Suc n) = - 1"
| "strncmp (x # xs) [] (Suc n) = 1"
| "strncmp (x # xs) (y # ys) (Suc n) =
     (if x = y then strncmp xs ys n
      else if of_char x < (of_char y :: nat) then - 1 else 1)"

text \<open>
  One call of \<open>strtok\<close> with the delimiter set \<open>","\<close>, on the part of the string that
  has not been consumed yet: skip the leading commas; with nothing left there is no
  token (\<open>NULL\<close>); otherwise the token runs to the next comma, which is overwritten by
  NUL, and the scan resumes behind it.
\<close>

definition strtok :: "string \<Rightarrow> (string \<times> string) option" where
  "strtok s =
     (let s1 = dropWhile (\<lambda>c. c = CHR '','') s in
      if s1 = [] then None
      else Some (takeWhile (\<lambda>c. c \<noteq> CHR '','') s1,
                 drop 1 (dropWhile (\<lambda>c. c \<noteq> CHR '','') s1)))"

text \<open>The table \<open>error_strings\<close> of the node counters, three slots.\<close>

definition error_strings :: "string list" where
  "error_strings = [''Inject ARP'', ''Inject ICMP'', ''Inject Classified'']"

text \<open>
  The inner loop of \<open>parse_protos\<close>,
  \<open>for (proto = proto_strings; proto && *proto; ++proto)\<close>. It has no bound: \<open>proto\<close>
  walks the pointer-sized slots of memory from the start of the table until it reads a
  null slot, and the table holds six slots, none of them null. So \<open>slots\<close> is memory from
  \<open>proto_strings\<close> on, the table followed by what lies behind it: a slot is null
  (\<open>None\<close>) or points to a string. \<open>i\<close> is \<open>proto - proto_strings\<close>. There is no result
  (\<open>None\<close>) when the walk leaves the slots given without having met a null one, and
  when a match asks for \<open>1 << i\<close> with \<open>i\<close> at or above 31, which the \<open>int\<close> 1 cannot be
  shifted by.
\<close>

fun match_protos :: "string \<Rightarrow> string option list \<Rightarrow> nat \<Rightarrow> u32 \<Rightarrow> u32 option" where
  "match_protos tok [] i protos = None"
| "match_protos tok (None # slots) i protos = Some protos"
| "match_protos tok (Some p # slots) i protos =
     (if strncmp tok p 16 = 0
      then (if i < 31 then match_protos tok slots (Suc i) (protos OR push_bit i 1) else None)
      else match_protos tok slots (Suc i) protos)"

text \<open>
  The tokens that the successive \<open>strtok\<close> calls of the loop
  \<open>for (tok = strtok(s, ","); tok; tok = strtok(NULL, ","))\<close> hand to its body, in
  order. Every call consumes at least one byte, so the loop ends.
\<close>

function strtok_all :: "string \<Rightarrow> string list" where
  "strtok_all s =
     (case strtok s of
        None \<Rightarrow> []
      | Some (tok, rest) \<Rightarrow> tok # strtok_all rest)"
  by pat_completeness auto
termination
proof (relation "measure length")
  show "wf (measure length)" by simp
next
  fix s :: string and x2 :: "string \<times> string" and tok rest :: string
  assume st: "strtok s = Some x2" and x2: "(tok, rest) = x2"
  let ?s1 = "dropWhile (\<lambda>c. c = CHR '','') s"
  from st x2 have ne: "?s1 \<noteq> []"
    and r: "rest = drop 1 (dropWhile (\<lambda>c. c \<noteq> CHR '','') ?s1)"
    by (auto simp: strtok_def Let_def split: if_splits)
  have tok_ne: "takeWhile (\<lambda>c. c \<noteq> CHR '','') ?s1 \<noteq> []"
    using ne hd_dropWhile [of "\<lambda>c. c = CHR '',''" s] by (cases ?s1) auto
  have "length (dropWhile (\<lambda>c. c \<noteq> CHR '','') ?s1) < length ?s1"
    using tok_ne takeWhile_dropWhile_id [of "\<lambda>c. c \<noteq> CHR '',''" ?s1]
    by (metis add_diff_cancel_right' length_append length_greater_0_conv
        zero_less_diff not_gr_zero)
  moreover have "length ?s1 \<le> length s"
    by (rule length_dropWhile_le)
  ultimately show "(rest, s) \<in> measure length" using r by simp
qed

declare strtok_all.simps [simp del]

text \<open>
  The outer loop of \<open>parse_protos\<close>: the body runs once per token, on the accumulator
  \<open>protos\<close>.
\<close>

fun parse_tokens :: "string option list \<Rightarrow> string list \<Rightarrow> u32 \<Rightarrow> u32 option" where
  "parse_tokens slots [] protos = Some protos"
| "parse_tokens slots (tok # toks) protos =
     (case match_protos tok slots 0 protos of
        None \<Rightarrow> None
      | Some protos' \<Rightarrow> parse_tokens slots toks protos')"

text \<open>
  \<open>parse_protos\<close>, given the slots that lie behind the table \<open>proto_strings\<close> in memory.
\<close>

definition parse_protos :: "string option list \<Rightarrow> string \<Rightarrow> u32 option" where
  "parse_protos behind proto_string =
     parse_tokens (map Some proto_strings @ behind) (strtok_all proto_string) 0"

text \<open>
  The parse as the specification words it: every recognized token contributes its bit,
  every other token contributes nothing, and the result is the union.
\<close>

definition spec_token_bit :: "string \<Rightarrow> u32" where
  "spec_token_bit t =
     (if t = ''arp'' then PROTO_BIT_ARP
      else if t = ''icmp4'' then PROTO_BIT_ICMP4
      else if t = ''igmp4'' then PROTO_BIT_IGMP4
      else if t = ''ospf2'' then PROTO_BIT_OSPF2
      else if t = ''tcp'' then PROTO_BIT_TCP
      else if t = ''udp'' then PROTO_BIT_UDP
      else 0)"

definition spec_parse :: "string list \<Rightarrow> u32" where
  "spec_parse toks = foldr (\<lambda>t acc. spec_token_bit t OR acc) toks 0"


section \<open>Packets\<close>

text \<open>
  A hardware address is the array \<open>u8[6]\<close>; \<open>memcmp\<close> over its six bytes is zero exactly
  when the two arrays are equal byte for byte.
\<close>

datatype mac = Mac u8 u8 u8 u8 u8 u8

definition memcmp_mac :: "mac \<Rightarrow> mac \<Rightarrow> int" where
  "memcmp_mac a b =
     (case (a, b) of
        (Mac a0 a1 a2 a3 a4 a5, Mac b0 b1 b2 b3 b4 b5) \<Rightarrow>
          (if a0 \<noteq> b0 then uint a0 - uint b0
           else if a1 \<noteq> b1 then uint a1 - uint b1
           else if a2 \<noteq> b2 then uint a2 - uint b2
           else if a3 \<noteq> b3 then uint a3 - uint b3
           else if a4 \<noteq> b4 then uint a4 - uint b4
           else uint a5 - uint b5))"

text \<open>
  Multi-byte header fields are held as the host loads them from the packet, that is in
  network byte order; \<open>ntohs\<close> is the byte swap of a little-endian host. An IPv4 address
  is its \<open>as_u32\<close> view.
\<close>

definition ntohs :: "u16 \<Rightarrow> u16" where
  "ntohs x = push_bit 8 x OR drop_bit 8 x"

record ethernet_header =
  dst_address :: mac
  src_address :: mac
  ether_type :: u16

text \<open>\<open>ethernet_arp_ip4_over_ethernet_address_t\<close>: a hardware address and an IPv4 address.\<close>

record ip4_over_ethernet_address =
  ethernet :: mac
  ip4 :: u32

text \<open>
  \<open>ethernet_arp_header_t\<close>; the array \<open>ip4_over_ethernet[2]\<close> is the pair of its elements,
  \<open>[0]\<close> the sender and \<open>[1]\<close> the target.
\<close>

record ethernet_arp_header =
  l2_type :: u16
  l3_type :: u16
  n_l2_address_bytes :: u8
  n_l3_address_bytes :: u8
  opcode :: u16
  ip4_over_ethernet_0 :: ip4_over_ethernet_address
  ip4_over_ethernet_1 :: ip4_over_ethernet_address

text \<open>Of \<open>ip4_header_t\<close> the engine reads the protocol field only.\<close>

record ip4_header =
  protocol :: u8

text \<open>
  A \<open>vlib_buffer_t\<close> with its packet. \<open>current_as_ip4\<close> and \<open>current_as_arp\<close> are the two
  views of \<open>vlib_buffer_get_current\<close> that the engine takes, the bytes at the current
  offset read as an IPv4 header or as an ARP header; \<open>ethernet_hdr\<close> is what
  \<open>ethernet_buffer_get_header\<close> returns.
\<close>

record vlib_buffer =
  sw_if_index_rx :: u32
  sw_if_index_tx :: u32
  current_data :: "16 word"
  current_length :: u16
  ethernet_hdr :: ethernet_header
  current_as_ip4 :: ip4_header
  current_as_arp :: ethernet_arp_header

text \<open>Constants of the packet formats (vnet's headers; the values are the IANA ones).\<close>

definition ETHERNET_ARP_HARDWARE_TYPE_ethernet :: u16 where
  "ETHERNET_ARP_HARDWARE_TYPE_ethernet = 1"
definition ETHERNET_ARP_OPCODE_reply :: u16 where
  "ETHERNET_ARP_OPCODE_reply = 2"
definition ETHERNET_TYPE_IP4 :: u16 where
  "ETHERNET_TYPE_IP4 = 0x800"
definition ETHERNET_TYPE_ARP :: u16 where
  "ETHERNET_TYPE_ARP = 0x806"
definition IP_PROTOCOL_ICMP :: u8 where "IP_PROTOCOL_ICMP = 1"
definition IP_PROTOCOL_IGMP :: u8 where "IP_PROTOCOL_IGMP = 2"
definition IP_PROTOCOL_TCP :: u8 where "IP_PROTOCOL_TCP = 6"
definition IP_PROTOCOL_UDP :: u8 where "IP_PROTOCOL_UDP = 17"
definition IP_PROTOCOL_OSPF :: u8 where "IP_PROTOCOL_OSPF = 89"
definition ETHERNET_ADDRESS_UNICAST :: nat where "ETHERNET_ADDRESS_UNICAST = 0"
definition sizeof_ethernet_header :: nat where "sizeof_ethernet_header = 14"

section \<open>The router's tables and the calls it makes\<close>

record tap_to_iface =
  tap :: u32
  iface :: u32

text \<open>
  \<open>struct router_main\<close> without the \<open>vnet_main\<close> pointer; the three vectors are lists,
  indexed from 0.
\<close>

record router_main =
  iface_to_tap :: "u32 list"
  iface_to_protos :: "u32 list"
  tap_to_iface :: "tap_to_iface list"
  ns_index :: u32

text \<open>The graph nodes whose \<open>.index\<close> the code passes around.\<close>

datatype node =
  Tap_inject_arp_node | Tap_inject_icmp_node | Tap_inject_classified_node
  | Ip4_lookup_node | Ip4_rewrite_node

text \<open>\<open>ip_adjacency_t\<close> and \<open>ip4_add_del_route_args_t\<close>, the fields the code sets.\<close>

record ip_adjacency =
  explicit_fib_index :: u32
  rewrite_header_node_index :: node
  lookup_next_index :: u32
  if_address_index :: u32

record ip4_add_del_route_args =
  flags :: u32
  table_index_or_table_id :: u32
  dst_address_as_u32 :: u32
  dst_address_length :: u32
  adj_index :: u32
  add_adj :: ip_adjacency
  n_add_adj :: u32

text \<open>
  The code acts on the forwarder through calls into it. The model records each call with
  its arguments, in the order made; the forwarder's own tables change only through them.
\<close>

datatype call =
  Vnet_arp_set_ip4_over_ethernet u32 u32 ip4_over_ethernet_address u32
  | Ip4_add_del_interface_address u32 u32 u8 int
  | Ip4_add_del_route_next_hop u32 u32 u8 u32 u32 u32 u32 u32
  | Rpc_set_interface_flags u32 u8
  | Vnet_tap_connect string mac
  | Set_int_l2_mode_xc u32 u32
  | Vnet_sw_interface_set_flags u32 u32
  | Vnet_tap_delete u32
  | Netns_open
  | Vlib_node_add_next node node
  | Ip4_add_del_route ip4_add_del_route_args
  | Ethernet_register_input_type u16 node
  | Ip4_register_protocol u8 node

section \<open>Classification and diversion engine\<close>

text \<open>
  The forwarder's functions that \<open>update_arp_entry\<close> calls. They belong to the forwarder,
  so the engine is modelled over any behaviour of them: the lookup of the interface
  address that matches a destination (the address and its \<open>ip_interface_address_t\<close>, or
  a null result), the subnet test of a destination against such an interface address,
  and the cast of a hardware address.
\<close>

record 'ifa vnet_env =
  ip4_interface_address_matching_destination :: "u32 \<Rightarrow> u32 \<Rightarrow> (u32 \<times> 'ifa) option"
  ip4_destination_matches_interface :: "u32 \<Rightarrow> 'ifa \<Rightarrow> bool"
  ethernet_address_cast :: "mac \<Rightarrow> nat"

definition update_arp_entry ::
  "'ifa vnet_env \<Rightarrow> vlib_buffer \<Rightarrow> ethernet_arp_header \<Rightarrow> u32 \<Rightarrow> call list" where
  "update_arp_entry env b0 arp vlib_rx =
     (if l2_type arp \<noteq> ntohs ETHERNET_ARP_HARDWARE_TYPE_ethernet \<or>
         l3_type arp \<noteq> ntohs ETHERNET_TYPE_IP4 then []
      else
        case ip4_interface_address_matching_destination env
               (ip4 (ip4_over_ethernet_1 arp)) vlib_rx of
          None \<Rightarrow> []
        | Some (if_addr, ifa) \<Rightarrow>
            if \<not> ip4_destination_matches_interface env (ip4 (ip4_over_ethernet_0 arp)) ifa
            then []
            else if if_addr = ip4 (ip4_over_ethernet_0 arp) then []
            else if if_addr \<noteq> ip4 (ip4_over_ethernet_1 arp) then []
            else
              let eth = ethernet_hdr b0 in
              if memcmp_mac (src_address eth) (ethernet (ip4_over_ethernet_0 arp)) \<noteq> 0
              then []
              else if ip4 (ip4_over_ethernet_0 arp) = 0 \<or>
                      ip4 (ip4_over_ethernet_0 arp) = ip4 (ip4_over_ethernet_1 arp) then []
              else if ethernet_address_cast env (dst_address eth) \<noteq> ETHERNET_ADDRESS_UNICAST
              then []
              else [Vnet_arp_set_ip4_over_ethernet vlib_rx (NOT 0) (ip4_over_ethernet_0 arp) 0])"

text \<open>The \<open>mode\<close> argument of \<open>tap_inject_func\<close>, one value per registered node.\<close>

datatype mode = ERROR_INJECT_ARP | ERROR_INJECT_ICMP | ERROR_INJECT_CLASSIFIED

definition NEXT_UNTAPPED :: u32 where "NEXT_UNTAPPED = 0"
definition NEXT_INJECT :: u32 where "NEXT_INJECT = 1"

text \<open>
  The body of the packet loop of \<open>tap_inject_func\<close> for one buffer: the buffer as it is
  enqueued, the next index \<open>next0\<close>, and the calls made. The two table reads are not
  bounds-checked in C; a read outside a vector is the result \<open>None\<close>.
\<close>

definition tap_inject_buffer ::
  "'ifa vnet_env \<Rightarrow> router_main \<Rightarrow> mode \<Rightarrow> vlib_buffer \<Rightarrow>
   (vlib_buffer \<times> u32 \<times> call list) option" where
  "tap_inject_buffer env rm mode b0 =
     (let vlib_rx = sw_if_index_rx b0 in
      if \<not> (unat vlib_rx < length (iface_to_tap rm) \<and>
             unat vlib_rx < length (iface_to_protos rm)) then None
      else
        let vlib_tx = iface_to_tap rm ! unat vlib_rx;
            protos = iface_to_protos rm ! unat vlib_rx
        in
        if vlib_tx = 0 \<or> vlib_tx = NOT 0 \<or> protos = 0 then Some (b0, NEXT_UNTAPPED, [])
        else
          let proto_bit =
            (case mode of
               ERROR_INJECT_CLASSIFIED \<Rightarrow>
                 (let iphdr = current_as_ip4 b0 in
                  if protocol iphdr = IP_PROTOCOL_TCP then PROTO_BIT_TCP
                  else if protocol iphdr = IP_PROTOCOL_UDP then PROTO_BIT_UDP
                  else if protocol iphdr = IP_PROTOCOL_OSPF then PROTO_BIT_OSPF2
                  else if protocol iphdr = IP_PROTOCOL_IGMP then PROTO_BIT_IGMP4
                  else 0)
             | ERROR_INJECT_ARP \<Rightarrow> PROTO_BIT_ARP
             | ERROR_INJECT_ICMP \<Rightarrow> PROTO_BIT_ICMP4)
          in
          if protos AND proto_bit = 0 then Some (b0, NEXT_UNTAPPED, [])
          else
            let learned =
              (if mode = ERROR_INJECT_ARP \<and>
                  opcode (current_as_arp b0) = ntohs ETHERNET_ARP_OPCODE_reply
               then update_arp_entry env b0 (current_as_arp b0) vlib_rx
               else [])
            in
            Some (b0\<lparr>sw_if_index_tx := vlib_tx,
                     current_data := current_data b0 - of_nat sizeof_ethernet_header,
                     current_length := current_length b0 + of_nat sizeof_ethernet_header\<rparr>,
                  NEXT_INJECT, learned))"

text \<open>
  What one run of \<open>tap_inject_func\<close> over a frame leaves behind: the buffers enqueued with
  their next index, in frame order, the calls made, and the value \<open>count\<close> added to the
  node's counter.
\<close>

record inject_result =
  enqueued :: "(vlib_buffer \<times> u32) list"
  calls_made :: "call list"
  count :: u32

fun tap_inject_loop ::
  "'ifa vnet_env \<Rightarrow> router_main \<Rightarrow> mode \<Rightarrow> vlib_buffer list \<Rightarrow> inject_result \<Rightarrow>
   inject_result option" where
  "tap_inject_loop env rm mode [] acc = Some acc"
| "tap_inject_loop env rm mode (b0 # from) acc =
     (case tap_inject_buffer env rm mode b0 of
        None \<Rightarrow> None
      | Some (b, next0, cs) \<Rightarrow>
          tap_inject_loop env rm mode from
            \<lparr>enqueued = enqueued acc @ [(b, next0)],
             calls_made = calls_made acc @ cs,
             count = (if next0 = NEXT_INJECT then count acc + 1 else count acc)\<rparr>)"

definition tap_inject_func ::
  "'ifa vnet_env \<Rightarrow> router_main \<Rightarrow> vlib_buffer list \<Rightarrow> mode \<Rightarrow> inject_result option" where
  "tap_inject_func env rm f mode =
     tap_inject_loop env rm mode f \<lparr>enqueued = [], calls_made = [], count = 0\<rparr>"

definition tap_inject_arp :: "'ifa vnet_env \<Rightarrow> router_main \<Rightarrow> vlib_buffer list \<Rightarrow> inject_result option" where
  "tap_inject_arp env rm f = tap_inject_func env rm f ERROR_INJECT_ARP"

definition tap_inject_icmp :: "'ifa vnet_env \<Rightarrow> router_main \<Rightarrow> vlib_buffer list \<Rightarrow> inject_result option" where
  "tap_inject_icmp env rm f = tap_inject_func env rm f ERROR_INJECT_ICMP"

definition tap_inject_classified :: "'ifa vnet_env \<Rightarrow> router_main \<Rightarrow> vlib_buffer list \<Rightarrow> inject_result option" where
  "tap_inject_classified env rm f = tap_inject_func env rm f ERROR_INJECT_CLASSIFIED"

text \<open>
  The claims about the engine, in the specification's words. The protocol bit determined
  for a packet: always ARP at the ARP entry point, always ICMP4 at the ICMP entry point,
  and at the classified entry point the bit that the IP protocol number stands for (6 is
  TCP, 17 is UDP, 89 is OSPF, 2 is IGMP), no bit for any other number.
\<close>

definition determined_proto_bit :: "mode \<Rightarrow> vlib_buffer \<Rightarrow> u32" where
  "determined_proto_bit mode b0 =
     (if mode = ERROR_INJECT_ARP then PROTO_BIT_ARP
      else if mode = ERROR_INJECT_ICMP then PROTO_BIT_ICMP4
      else if protocol (current_as_ip4 b0) = 6 then PROTO_BIT_TCP
      else if protocol (current_as_ip4 b0) = 17 then PROTO_BIT_UDP
      else if protocol (current_as_ip4 b0) = 89 then PROTO_BIT_OSPF2
      else if protocol (current_as_ip4 b0) = 2 then PROTO_BIT_IGMP4
      else 0)"

text \<open>
  The shadow interface and the enabled protocols recorded for the ingress interface of a
  packet.
\<close>

definition shadow_of :: "router_main \<Rightarrow> vlib_buffer \<Rightarrow> u32" where
  "shadow_of rm b0 = iface_to_tap rm ! unat (sw_if_index_rx b0)"

definition enabled_protocols_of :: "router_main \<Rightarrow> vlib_buffer \<Rightarrow> u32" where
  "enabled_protocols_of rm b0 = iface_to_protos rm ! unat (sw_if_index_rx b0)"

definition rx_in_tables :: "router_main \<Rightarrow> vlib_buffer \<Rightarrow> bool" where
  "rx_in_tables rm b0 \<longleftrightarrow>
     unat (sw_if_index_rx b0) < length (iface_to_tap rm) \<and>
     unat (sw_if_index_rx b0) < length (iface_to_protos rm)"

text \<open>
  The redirect condition as the specification states it: a shadow is configured (the
  entry is not the sentinel "none"), the enabled set is not empty, and it contains the
  packet's bit.
\<close>

definition spec_redirects :: "router_main \<Rightarrow> mode \<Rightarrow> vlib_buffer \<Rightarrow> bool" where
  "spec_redirects rm mode b0 \<longleftrightarrow>
     shadow_of rm b0 \<noteq> NOT 0 \<and>
     enabled_protocols_of rm b0 \<noteq> 0 \<and>
     enabled_protocols_of rm b0 AND determined_proto_bit mode b0 \<noteq> 0"

text \<open>The same condition with the shadow identifier 0 excluded as well.\<close>

definition redirects :: "router_main \<Rightarrow> mode \<Rightarrow> vlib_buffer \<Rightarrow> bool" where
  "redirects rm mode b0 \<longleftrightarrow> shadow_of rm b0 \<noteq> 0 \<and> spec_redirects rm mode b0"

text \<open>
  The validation of an ARP reply as the specification lists it: Ethernet hardware type
  and IPv4 protocol type; the target IP matches a local address of the ingress interface
  whose subnet holds the sender IP too; that address differs from the sender IP and
  equals the target IP; the frame's source address is the ARP sender hardware address;
  the sender IP is neither zero nor the target IP; the frame's destination is unicast.
\<close>

definition arp_reply_valid :: "'ifa vnet_env \<Rightarrow> vlib_buffer \<Rightarrow> bool" where
  "arp_reply_valid env b0 =
     (let arp = current_as_arp b0;
          sender = ip4_over_ethernet_0 arp;
          target = ip4_over_ethernet_1 arp
      in
      ntohs (l2_type arp) = ETHERNET_ARP_HARDWARE_TYPE_ethernet \<and>
      ntohs (l3_type arp) = ETHERNET_TYPE_IP4 \<and>
      (case ip4_interface_address_matching_destination env (ip4 target) (sw_if_index_rx b0) of
         None \<Rightarrow> False
       | Some (if_addr, ifa) \<Rightarrow>
           ip4_destination_matches_interface env (ip4 sender) ifa \<and>
           if_addr \<noteq> ip4 sender \<and> if_addr = ip4 target) \<and>
      src_address (ethernet_hdr b0) = ethernet sender \<and>
      ip4 sender \<noteq> 0 \<and> ip4 sender \<noteq> ip4 target \<and>
      ethernet_address_cast env (dst_address (ethernet_hdr b0)) = ETHERNET_ADDRESS_UNICAST)"

definition is_arp_reply :: "vlib_buffer \<Rightarrow> bool" where
  "is_arp_reply b0 \<longleftrightarrow> ntohs (opcode (current_as_arp b0)) = ETHERNET_ARP_OPCODE_reply"

text \<open>
  The upsert of (sender IP, sender hardware address) into the address-resolution table
  for the ingress interface of a packet.
\<close>

definition arp_upsert :: "vlib_buffer \<Rightarrow> call" where
  "arp_upsert b0 =
     Vnet_arp_set_ip4_over_ethernet (sw_if_index_rx b0) (NOT 0)
       (ip4_over_ethernet_0 (current_as_arp b0)) 0"

text \<open>
  A reference behaviour of the forwarder's three functions, for concrete runs: the
  addresses of an interface are a list of (address, prefix length); an address matches a
  destination when both agree under the prefix mask (held in network byte order, as the
  addresses are); the lookup returns the first match; a hardware address is multicast
  when the low bit of its first byte is set.
\<close>

definition ip4_addr :: "u8 \<Rightarrow> u8 \<Rightarrow> u8 \<Rightarrow> u8 \<Rightarrow> u32" where
  "ip4_addr a b c d =
     ucast a OR push_bit 8 (ucast b) OR push_bit 16 (ucast c) OR push_bit 24 (ucast d)"

definition clib_host_to_net_u32 :: "u32 \<Rightarrow> u32" where
  "clib_host_to_net_u32 x =
     push_bit 24 (x AND 0xFF) OR push_bit 8 (x AND 0xFF00) OR
     (drop_bit 8 x AND 0xFF00) OR drop_bit 24 x"

definition ip4_fib_mask :: "nat \<Rightarrow> u32" where
  "ip4_fib_mask len = clib_host_to_net_u32 (push_bit (32 - len) (mask len))"

definition ip4_destination_matches_route :: "u32 \<Rightarrow> u32 \<Rightarrow> nat \<Rightarrow> bool" where
  "ip4_destination_matches_route key dest dest_length \<longleftrightarrow>
     (key XOR dest) AND ip4_fib_mask dest_length = 0"

definition reference_env :: "(u32 \<Rightarrow> (u32 \<times> nat) list) \<Rightarrow> (u32 \<times> nat) vnet_env" where
  "reference_env addrs =
     \<lparr>ip4_interface_address_matching_destination =
        (\<lambda>dst sw_if_index.
           case find (\<lambda>(a, len). ip4_destination_matches_route dst a len) (addrs sw_if_index) of
             None \<Rightarrow> None
           | Some (a, len) \<Rightarrow> Some (a, (a, len))),
      ip4_destination_matches_interface =
        (\<lambda>key (a, len). ip4_destination_matches_route key a len),
      ethernet_address_cast =
        (\<lambda>m. case m of Mac a0 a1 a2 a3 a4 a5 \<Rightarrow> unat (a0 AND 1))\<rparr>"

text \<open>
  A packet as the engine hands it to interface-output when it redirects: the egress
  interface is the shadow, and the Ethernet header is back in front of the current data.
\<close>

definition diverted_buffer :: "router_main \<Rightarrow> vlib_buffer \<Rightarrow> vlib_buffer" where
  "diverted_buffer rm b0 =
     b0\<lparr>sw_if_index_tx := shadow_of rm b0,
        current_data := current_data b0 - 14,
        current_length := current_length b0 + 14\<rparr>"

text \<open>Every table entry 0 replaced by the sentinel "none".\<close>

definition zero_as_none :: "router_main \<Rightarrow> router_main" where
  "zero_as_none rm = rm\<lparr>iface_to_tap := map (\<lambda>t. if t = 0 then NOT 0 else t) (iface_to_tap rm)\<rparr>"

text \<open>
  Concrete packets and tables for the examples of the specification: an ARP packet on
  interface 1, which owns 10.0.0.1/24; the sender is 10.0.0.5 at 11:11:11:11:11:11, the
  target 10.0.0.1, and the destination of the frame is the unicast address
  02:00:00:00:00:01.
\<close>

definition ex_arp :: "u16 \<Rightarrow> ethernet_arp_header" where
  "ex_arp op =
     \<lparr>l2_type = ntohs 1, l3_type = ntohs 0x800,
      n_l2_address_bytes = 6, n_l3_address_bytes = 4,
      opcode = ntohs op,
      ip4_over_ethernet_0 =
        \<lparr>ethernet = Mac 0x11 0x11 0x11 0x11 0x11 0x11, ip4 = ip4_addr 10 0 0 5\<rparr>,
      ip4_over_ethernet_1 =
        \<lparr>ethernet = Mac 0x02 0 0 0 0 0x01, ip4 = ip4_addr 10 0 0 1\<rparr>\<rparr>"

definition ex_buffer :: "mac \<Rightarrow> u16 \<Rightarrow> vlib_buffer" where
  "ex_buffer frame_src op =
     \<lparr>sw_if_index_rx = 1, sw_if_index_tx = NOT 0,
      current_data = 14, current_length = 28,
      ethernet_hdr =
        \<lparr>dst_address = Mac 0x02 0 0 0 0 0x01, src_address = frame_src, ether_type = ntohs 0x806\<rparr>,
      current_as_ip4 = \<lparr>protocol = 0x11\<rparr>,
      current_as_arp = ex_arp op\<rparr>"

definition ex_rm :: "u32 \<Rightarrow> u32 \<Rightarrow> router_main" where
  "ex_rm shadow protos =
     \<lparr>iface_to_tap = [NOT 0, shadow], iface_to_protos = [0, protos],
      tap_to_iface = [\<lparr>tap = 12, iface = 1\<rparr>], ns_index = 0\<rparr>"

definition ex_env :: "(u32 \<times> nat) vnet_env" where
  "ex_env = reference_env (\<lambda>sw_if_index. if sw_if_index = 1 then [(ip4_addr 10 0 0 1, 24)] else [])"

section \<open>OS state mirror\<close>

text \<open>
  The events of the namespace layer, with the fields the handlers read: of \<open>ns_addr_t\<close>
  the interface index and prefix length of \<open>ifaddr\<close> and the first four bytes of
  \<open>local\<close>; of \<open>ns_route_t\<close> the output interface, the table, the destination length of
  \<open>rtm\<close>, and the first four bytes of \<open>dst\<close> and \<open>gateway\<close>; of \<open>ns_link_t\<close> the index and
  flags of \<open>ifi\<close> (the index converted to unsigned, as the comparison with \<open>map->tap\<close>
  does).
\<close>

record ns_addr =
  ifa_index :: u32
  ifa_prefixlen :: u8
  local :: u32

record ns_route =
  oif :: u32
  table :: u32
  rtm_dst_len :: u8
  dst :: u32
  gateway :: u32

record ns_link =
  ifi_index :: u32
  ifi_flags :: u32

definition IP4_ROUTE_FLAG_ADD :: u32 where "IP4_ROUTE_FLAG_ADD = 0"
definition IP4_ROUTE_FLAG_DEL :: u32 where "IP4_ROUTE_FLAG_DEL = 1"
definition IP4_ROUTE_FLAG_TABLE_ID :: u32 where "IP4_ROUTE_FLAG_TABLE_ID = 0"
definition VNET_SW_INTERFACE_FLAG_ADMIN_UP :: u32 where "VNET_SW_INTERFACE_FLAG_ADMIN_UP = 1"
definition IFF_UP :: u32 where "IFF_UP = 1"
definition NETNS_F_DEL :: u32 where "NETNS_F_DEL = 2"

text \<open>
  The scan that each of the three handlers starts with: \<open>sw_if_index\<close> starts as \<open>~0\<close>,
  and \<open>vec_foreach\<close> over \<open>rm.tap_to_iface\<close> stops at the first entry whose \<open>tap\<close> is the
  identifier looked for.
\<close>

fun reverse_lookup :: "tap_to_iface list \<Rightarrow> u32 \<Rightarrow> u32" where
  "reverse_lookup [] ifindex = NOT 0"
| "reverse_lookup (m # ms) ifindex =
     (if ifindex = tap m then iface m else reverse_lookup ms ifindex)"

definition add_del_addr :: "router_main \<Rightarrow> ns_addr \<Rightarrow> int \<Rightarrow> call list" where
  "add_del_addr rm a is_del =
     (let sw_if_index = reverse_lookup (tap_to_iface rm) (ifa_index a) in
      if sw_if_index = NOT 0 then []
      else [Ip4_add_del_interface_address sw_if_index (local a) (ifa_prefixlen a) is_del])"

definition add_del_route :: "router_main \<Rightarrow> ns_route \<Rightarrow> int \<Rightarrow> call list" where
  "add_del_route rm r is_del =
     (let sw_if_index = reverse_lookup (tap_to_iface rm) (oif r) in
      if sw_if_index = NOT 0 \<or> table r \<noteq> 254 then []
      else [Ip4_add_del_route_next_hop
              (if is_del \<noteq> 0 then IP4_ROUTE_FLAG_DEL else IP4_ROUTE_FLAG_ADD)
              (dst r) (rtm_dst_len r) (gateway r) sw_if_index 0 (NOT 0) 0])"

text \<open>
  \<open>add_del_link\<close> reads the current flags of the interface from the forwarder
  (\<open>sw_flags\<close>), truncated to the \<open>u8\<close> local, and hands the new flags to the main thread.
\<close>

definition add_del_link :: "(u32 \<Rightarrow> u32) \<Rightarrow> router_main \<Rightarrow> ns_link \<Rightarrow> int \<Rightarrow> call list" where
  "add_del_link sw_flags rm l is_del =
     (let sw_if_index = reverse_lookup (tap_to_iface rm) (ifi_index l) in
      if sw_if_index = NOT 0 then []
      else
        let flags0 = (ucast (sw_flags sw_if_index) :: u8);
            flags1 = (if ifi_flags l AND IFF_UP \<noteq> 0
                      then flags0 OR ucast VNET_SW_INTERFACE_FLAG_ADMIN_UP
                      else flags0 AND NOT (ucast VNET_SW_INTERFACE_FLAG_ADMIN_UP))
        in [Rpc_set_interface_flags sw_if_index flags1])"

definition set_interface_flags_callback :: "u32 \<Rightarrow> u8 \<Rightarrow> call list" where
  "set_interface_flags_callback sw_if_index fl = [Vnet_sw_interface_set_flags sw_if_index (ucast fl)]"

datatype netns_obj = NETNS_TYPE_ADDR ns_addr | NETNS_TYPE_ROUTE ns_route | NETNS_TYPE_LINK ns_link

definition netns_notify_cb ::
  "(u32 \<Rightarrow> u32) \<Rightarrow> router_main \<Rightarrow> netns_obj \<Rightarrow> u32 \<Rightarrow> call list" where
  "netns_notify_cb sw_flags rm obj fl =
     (case obj of
        NETNS_TYPE_ADDR a \<Rightarrow> add_del_addr rm a (uint (fl AND NETNS_F_DEL))
      | NETNS_TYPE_ROUTE r \<Rightarrow> add_del_route rm r (uint (fl AND NETNS_F_DEL))
      | NETNS_TYPE_LINK l \<Rightarrow> add_del_link sw_flags rm l (uint (fl AND NETNS_F_DEL)))"

definition insert_tap_to_iface :: "u32 \<Rightarrow> u32 \<Rightarrow> router_main \<Rightarrow> router_main" where
  "insert_tap_to_iface tap_id iface_id rm =
     rm\<lparr>tap_to_iface := tap_to_iface rm @ [\<lparr>tap = tap_id, iface = iface_id\<rparr>]\<rparr>"

section \<open>Diversion setup\<close>

text \<open>
  The globals of the file: \<open>rm\<close>, the two statics \<open>ip4_next_index\<close> and
  \<open>ip4_multicast_arc_added\<close>, and the calls made into the forwarder so far.
\<close>

record router_state =
  g_rm :: router_main
  ip4_next_index :: u32
  ip4_multicast_arc_added :: u32
  call_log :: "call list"

text \<open>
  What the collaborators answer during one run of the setup command: the hardware
  interface found or not and its address, the flags of the software interface, the
  return code of \<open>vnet_tap_connect\<close> and the value it leaves in \<open>*tap\<close>, the results of
  the \<open>socket\<close> and \<open>ioctl\<close> calls of the two tap helpers, the return code of
  \<open>set_int_l2_mode\<close>, the error of \<open>vnet_sw_interface_set_flags\<close>, and the results of
  \<open>netns_open\<close>, \<open>if_nametoindex\<close> and \<open>vlib_node_add_next\<close>.
\<close>

record setup_env =
  hw_interface_found :: bool
  hw_address :: "mac option"
  sw_interface_flags :: u32
  vnet_tap_connect_rc :: int
  vnet_tap_connect_tap :: u32
  hwaddr_socket :: int
  hwaddr_ioctl :: int
  link_socket :: int
  link_ioctl_get :: int
  link_ioctl_set :: int
  set_int_l2_mode_rc :: u32
  vnet_sw_interface_set_flags_error :: "string option"
  netns_open_result :: u32
  if_nametoindex_result :: u32
  vlib_node_add_next_result :: u32

definition set_tap_hwaddr :: "setup_env \<Rightarrow> string \<Rightarrow> mac \<Rightarrow> int" where
  "set_tap_hwaddr env name hwaddr =
     (let fd = hwaddr_socket env in
      if fd < 0 then - 1
      else if hwaddr_ioctl env < 0 then - 1 else 0)"

definition set_tap_link_state :: "setup_env \<Rightarrow> string \<Rightarrow> u32 \<Rightarrow> int" where
  "set_tap_link_state env name fl =
     (let fd = link_socket env in
      if fd < 0 then - 1
      else
        let rc = link_ioctl_get env in
        if rc < 0 then rc
        else if link_ioctl_set env < 0 then - 1 else 0)"

text \<open>
  \<open>do_tap_connect\<close>: the error (or none), the value of \<open>*tap\<close> at return, and the calls
  made into the forwarder.
\<close>

definition do_tap_connect ::
  "setup_env \<Rightarrow> string \<Rightarrow> u32 \<Rightarrow> string option \<times> u32 \<times> call list" where
  "do_tap_connect env name iface_id =
     (if \<not> hw_interface_found env then (Some ''invalid interface'', NOT 0, [])
      else
        let hw_addr = (case hw_address env of None \<Rightarrow> Mac 0 0 0 0 0 0 | Some a \<Rightarrow> a);
            tap_id = vnet_tap_connect_tap env;
            c1 = [Vnet_tap_connect name hw_addr]
        in
        if vnet_tap_connect_rc env \<noteq> 0 then (Some ''failed to connect tap'', tap_id, c1)
        else if set_tap_hwaddr env name hw_addr \<noteq> 0
        then (Some ''failed to set tap hw address'', tap_id, c1)
        else if set_tap_link_state env name (sw_interface_flags env) \<noteq> 0
        then (Some ''failed to set tap link state'', tap_id, c1)
        else if set_int_l2_mode_rc env \<noteq> 0
        then (Some ''failed to xconnect to interface'', tap_id,
              c1 @ [Set_int_l2_mode_xc tap_id iface_id])
        else (vnet_sw_interface_set_flags_error env, tap_id,
              c1 @ [Set_int_l2_mode_xc tap_id iface_id,
                    Vnet_sw_interface_set_flags tap_id VNET_SW_INTERFACE_FLAG_ADMIN_UP]))"

definition ip4_lookup_next_index :: "setup_env \<Rightarrow> router_state \<Rightarrow> u32 \<times> router_state" where
  "ip4_lookup_next_index env s =
     (if ip4_next_index s = NOT 0
      then (vlib_node_add_next_result env,
            s\<lparr>ip4_next_index := vlib_node_add_next_result env,
              call_log := call_log s @ [Vlib_node_add_next Ip4_lookup_node Tap_inject_classified_node]\<rparr>)
      else (ip4_next_index s, s))"

definition add_ip4_multicast_arc :: "setup_env \<Rightarrow> router_state \<Rightarrow> router_state" where
  "add_ip4_multicast_arc env s =
     (if ip4_multicast_arc_added s \<noteq> 0 then s
      else
        case ip4_lookup_next_index env s of
          (next_index, s1) \<Rightarrow>
            let adj = \<lparr>explicit_fib_index = NOT 0,
                       rewrite_header_node_index = Ip4_rewrite_node,
                       lookup_next_index = next_index,
                       if_address_index = NOT 0\<rparr>;
                a = \<lparr>flags = IP4_ROUTE_FLAG_TABLE_ID OR IP4_ROUTE_FLAG_ADD,
                     table_index_or_table_id = 0,
                     dst_address_as_u32 = 0x000000E0,
                     dst_address_length = 24,
                     adj_index = NOT 0,
                     add_adj = adj,
                     n_add_adj = 1\<rparr>
            in s1\<lparr>call_log := call_log s1 @ [Ip4_add_del_route a],
                  ip4_multicast_arc_added := 1\<rparr>)"

text \<open>
  \<open>tap_inject\<close>, in the blocks of its body. First the checks on the values that the
  argument loop has left in \<open>name\<close>, \<open>iface\<close> and \<open>protos\<close>: the error they end with, or
  none.
\<close>

definition tap_inject_checks :: "string option \<Rightarrow> u32 \<Rightarrow> u32 \<Rightarrow> string option" where
  "tap_inject_checks name iface_id protos =
     (if protos = 0 then Some ''no protocols specified''
      else if iface_id = NOT 0 then Some ''interface name is missing or invalid''
      else if name = None then Some ''host interface name is missing or invalid''
      else if protos AND PROTO_BIT_OSPF2 \<noteq> 0 \<and>
              (protos AND PROTO_BIT_ARP = 0 \<or> protos AND PROTO_BIT_ICMP4 = 0 \<or>
               protos AND PROTO_BIT_IGMP4 = 0)
      then Some ''ospf2 requires arp, icmp4, and igmp4''
      else if protos AND PROTO_BIT_TCP \<noteq> 0 \<and>
              (protos AND PROTO_BIT_ARP = 0 \<or> protos AND PROTO_BIT_ICMP4 = 0)
      then Some ''tcp requires arp and icmp4''
      else if protos AND PROTO_BIT_UDP \<noteq> 0 \<and>
              (protos AND PROTO_BIT_ARP = 0 \<or> protos AND PROTO_BIT_ICMP4 = 0 \<or>
               protos AND PROTO_BIT_IGMP4 = 0)
      then Some ''udp requires arp, icmp4, and igmp4''
      else None)"

text \<open>
  The block that opens the namespace subscription. When \<open>netns_open\<close> fails, the tap is
  deleted and \<open>clib_error_return\<close> builds the error "failed to open namespace"; the
  statement has no \<open>return\<close>, so the error is dropped and control goes on.
\<close>

definition tap_inject_open_ns :: "setup_env \<Rightarrow> u32 \<Rightarrow> u32 \<Rightarrow> router_state \<Rightarrow> router_state" where
  "tap_inject_open_ns env protos tap_id s =
     (if (protos AND PROTO_BIT_ARP \<noteq> 0 \<or> protos AND PROTO_BIT_ICMP4 \<noteq> 0) \<and>
         ns_index (g_rm s) = NOT 0
      then
        let s1 = s\<lparr>g_rm := (g_rm s)\<lparr>ns_index := netns_open_result env\<rparr>,
                   call_log := call_log s @ [Netns_open]\<rparr>
        in
        if ns_index (g_rm s1) = NOT 0
        then s1\<lparr>call_log := call_log s1 @ [Vnet_tap_delete tap_id]\<rparr>
        else s1
      else s)"

text \<open>The registrations of the protocol handlers, in the order of the code.\<close>

definition tap_inject_register :: "u32 \<Rightarrow> call list" where
  "tap_inject_register protos =
     (if protos AND PROTO_BIT_ARP \<noteq> 0
      then [Ethernet_register_input_type ETHERNET_TYPE_ARP Tap_inject_arp_node] else []) @
     (if protos AND PROTO_BIT_ICMP4 \<noteq> 0
      then [Ip4_register_protocol IP_PROTOCOL_ICMP Tap_inject_icmp_node] else []) @
     (if protos AND PROTO_BIT_OSPF2 \<noteq> 0
      then [Ip4_register_protocol IP_PROTOCOL_OSPF Tap_inject_classified_node] else []) @
     (if protos AND PROTO_BIT_TCP \<noteq> 0
      then [Ip4_register_protocol IP_PROTOCOL_TCP Tap_inject_classified_node] else []) @
     (if protos AND PROTO_BIT_UDP \<noteq> 0
      then [Ip4_register_protocol IP_PROTOCOL_UDP Tap_inject_classified_node] else [])"

text \<open>
  The two stores \<open>rm.iface_to_tap[iface] = tap\<close> and \<open>rm.iface_to_protos[iface] = protos\<close>
  and the insertion into the reverse mapping. The stores are not bounds-checked; a store
  outside a vector is the result \<open>None\<close>.
\<close>

definition tap_inject_commit ::
  "setup_env \<Rightarrow> u32 \<Rightarrow> u32 \<Rightarrow> u32 \<Rightarrow> router_main \<Rightarrow> router_main option" where
  "tap_inject_commit env iface_id tap_id protos rm =
     (if \<not> (unat iface_id < length (iface_to_tap rm) \<and>
             unat iface_id < length (iface_to_protos rm)) then None
      else Some (insert_tap_to_iface (if_nametoindex_result env) iface_id
                   (rm\<lparr>iface_to_tap := (iface_to_tap rm)[unat iface_id := tap_id],
                      iface_to_protos := (iface_to_protos rm)[unat iface_id := protos]\<rparr>)))"

text \<open>
  The command as a whole: the error returned (\<open>None\<close> for the return value 0) and the
  state it leaves.
\<close>

definition tap_inject ::
  "setup_env \<Rightarrow> string option \<Rightarrow> u32 \<Rightarrow> u32 \<Rightarrow> router_state \<Rightarrow>
   (string option \<times> router_state) option" where
  "tap_inject env name iface_id protos s =
     (case tap_inject_checks name iface_id protos of
        Some e \<Rightarrow> Some (Some e, s)
      | None \<Rightarrow>
          (case do_tap_connect env (the name) iface_id of
             (err, tap_id, cs) \<Rightarrow>
               let s1 = s\<lparr>call_log := call_log s @ cs\<rparr> in
               (case err of
                  Some e \<Rightarrow>
                    Some (Some e,
                          if tap_id \<noteq> NOT 0
                          then s1\<lparr>call_log := call_log s1 @ [Vnet_tap_delete tap_id]\<rparr>
                          else s1)
                | None \<Rightarrow>
                    let s2 = tap_inject_open_ns env protos tap_id s1;
                        s3 = (if protos AND PROTO_BIT_IGMP4 \<noteq> 0
                              then add_ip4_multicast_arc env s2 else s2);
                        s4 = s3\<lparr>call_log := call_log s3 @ tap_inject_register protos\<rparr>
                    in
                    (case tap_inject_commit env iface_id tap_id protos (g_rm s4) of
                       None \<Rightarrow> None
                     | Some rm' \<Rightarrow> Some (None, s4\<lparr>g_rm := rm'\<rparr>)))))"

text \<open>
  \<open>interface_add_del\<close>: \<open>vec_validate\<close> grows both vectors with zeros up to the index of
  the interface, whose two entries are then set to "none" and to the empty set.
\<close>

definition vec_validate :: "u32 list \<Rightarrow> nat \<Rightarrow> u32 list" where
  "vec_validate v i = v @ replicate (Suc i - length v) 0"

definition interface_add_del :: "u32 \<Rightarrow> router_main \<Rightarrow> router_main" where
  "interface_add_del sw_if_index rm =
     rm\<lparr>iface_to_tap := (vec_validate (iface_to_tap rm) (unat sw_if_index))[unat sw_if_index := NOT 0],
        iface_to_protos := (vec_validate (iface_to_protos rm) (unat sw_if_index))[unat sw_if_index := 0]\<rparr>"

text \<open>
  The state after \<open>vlib_plugin_register\<close>: the vectors are empty, \<open>ns_index\<close> is \<open>~0\<close>, and
  the statics have their initial values.
\<close>

definition initial_state :: router_state where
  "initial_state =
     \<lparr>g_rm = \<lparr>iface_to_tap = [], iface_to_protos = [], tap_to_iface = [], ns_index = NOT 0\<rparr>,
      ip4_next_index = NOT 0, ip4_multicast_arc_added = 0, call_log = []\<rparr>"

text \<open>
  What happens to the state over time: the forwarder announces an interface
  (\<open>interface_add_del\<close>), or the setup command runs, with the answers of the collaborators
  for that run. A run of events stops without a result at a store outside a vector.
\<close>

datatype setup_event =
  Interface_add_del_event u32
  | Tap_inject_event setup_env "string option" u32 u32

fun run_events :: "setup_event list \<Rightarrow> router_state \<Rightarrow> router_state option" where
  "run_events [] s = Some s"
| "run_events (Interface_add_del_event sw_if_index # rest) s =
     run_events rest (s\<lparr>g_rm := interface_add_del sw_if_index (g_rm s)\<rparr>)"
| "run_events (Tap_inject_event env name iface_id protos # rest) s =
     (case tap_inject env name iface_id protos s of
        None \<Rightarrow> None
      | Some (err, s') \<Rightarrow> run_events rest s')"

text \<open>
  The prerequisites in the specification's words, over the set that a bit mask stands
  for: OSPF2 needs ARP, ICMP4 and IGMP4; TCP needs ARP and ICMP4; UDP needs ARP, ICMP4
  and IGMP4.
\<close>

definition has_proto :: "u32 \<Rightarrow> nat \<Rightarrow> bool" where
  "has_proto protos p \<longleftrightarrow> bit protos p"

definition spec_prerequisite_error :: "u32 \<Rightarrow> string option" where
  "spec_prerequisite_error protos =
     (if has_proto protos PROTO_OSPF2 \<and>
         \<not> (has_proto protos PROTO_ARP \<and> has_proto protos PROTO_ICMP4 \<and>
            has_proto protos PROTO_IGMP4)
      then Some ''ospf2 requires arp, icmp4, and igmp4''
      else if has_proto protos PROTO_TCP \<and>
              \<not> (has_proto protos PROTO_ARP \<and> has_proto protos PROTO_ICMP4)
      then Some ''tcp requires arp and icmp4''
      else if has_proto protos PROTO_UDP \<and>
              \<not> (has_proto protos PROTO_ARP \<and> has_proto protos PROTO_ICMP4 \<and>
                 has_proto protos PROTO_IGMP4)
      then Some ''udp requires arp, icmp4, and igmp4''
      else None)"

text \<open>The calls that add or delete a route through \<open>ip4_add_del_route\<close>.\<close>

fun is_route_call :: "call \<Rightarrow> bool" where
  "is_route_call (Ip4_add_del_route a) = True"
| "is_route_call c = False"

text \<open>Concrete answers of the collaborators in which every step of the setup succeeds.\<close>

definition ex_setup_env :: "u32 \<Rightarrow> u32 \<Rightarrow> setup_env" where
  "ex_setup_env tap_id ns =
     \<lparr>hw_interface_found = True, hw_address = Some (Mac 0x02 0 0 0 0 0x01),
      sw_interface_flags = 1, vnet_tap_connect_rc = 0, vnet_tap_connect_tap = tap_id,
      hwaddr_socket = 3, hwaddr_ioctl = 0, link_socket = 3, link_ioctl_get = 0,
      link_ioctl_set = 0, set_int_l2_mode_rc = 0,
      vnet_sw_interface_set_flags_error = None, netns_open_result = ns,
      if_nametoindex_result = 12, vlib_node_add_next_result = 5\<rparr>"

definition ex_state :: router_state where
  "ex_state = initial_state\<lparr>g_rm := interface_add_del 1 (interface_add_del 0 (g_rm initial_state))\<rparr>"

definition ex_route :: "u32 \<Rightarrow> ns_route" where
  "ex_route t = \<lparr>oif = 12, table = t, rtm_dst_len = 24, dst = ip4_addr 192 168 7 0,
                 gateway = ip4_addr 10 0 0 5\<rparr>"


text \<open>The call that adds the route 224.0.0.0/24 of the multicast arc.\<close>

definition is_multicast_arc_route :: "call \<Rightarrow> bool" where
  "is_multicast_arc_route c =
     (case c of
        Ip4_add_del_route a \<Rightarrow>
          flags a = IP4_ROUTE_FLAG_ADD \<and> dst_address_as_u32 a = ip4_addr 224 0 0 0 \<and>
          dst_address_length a = 24 \<and> table_index_or_table_id a = 0
      | _ \<Rightarrow> False)"

text \<open>
  The latch and the route calls agree: no route call was made while the latch is 0, and
  exactly one, for the multicast arc, once it is set.
\<close>

definition arc_inv :: "router_state \<Rightarrow> bool" where
  "arc_inv s \<longleftrightarrow>
     (if ip4_multicast_arc_added s = 0 then filter is_route_call (call_log s) = []
      else length (filter is_route_call (call_log s)) = 1 \<and>
           list_all is_multicast_arc_route (filter is_route_call (call_log s)))"

text \<open>Two interfaces are announced, then each gets a diversion with ARP, ICMP4 and IGMP4.\<close>

definition ex_events :: "setup_event list" where
  "ex_events =
     [Interface_add_del_event 0, Interface_add_del_event 1,
      Tap_inject_event (ex_setup_env 7 0) (Some ''tap0'') 1 7,
      Tap_inject_event (ex_setup_env 8 0) (Some ''tap1'') 0 7]"

section \<open>Facts about the protocol registry\<close>

lemmas PROTO_defs =
  PROTO_ARP_def PROTO_ICMP4_def PROTO_IGMP4_def PROTO_OSPF2_def PROTO_TCP_def
  PROTO_UDP_def PROTO_N_TOTAL_def

lemmas PROTO_BIT_defs =
  PROTO_BIT_ARP_def PROTO_BIT_ICMP4_def PROTO_BIT_IGMP4_def PROTO_BIT_OSPF2_def
  PROTO_BIT_TCP_def PROTO_BIT_UDP_def

lemma strncmp_eq: "length b < n \<Longrightarrow> (strncmp a b n = 0) = (a = b)"
  by (induction a b n rule: strncmp.induct) auto

lemma bit_push_bit_1: "bit (push_bit i 1 :: u32) k \<longleftrightarrow> k = i \<and> k < 32"
  by (auto simp: bit_simps)

lemma strncmp_names:
  "(strncmp tok ''arp'' 16 = 0) = (tok = ''arp'')"
  "(strncmp tok ''icmp4'' 16 = 0) = (tok = ''icmp4'')"
  "(strncmp tok ''igmp4'' 16 = 0) = (tok = ''igmp4'')"
  "(strncmp tok ''ospf2'' 16 = 0) = (tok = ''ospf2'')"
  "(strncmp tok ''tcp'' 16 = 0) = (tok = ''tcp'')"
  "(strncmp tok ''udp'' 16 = 0) = (tok = ''udp'')"
  by (simp_all add: strncmp_eq)

text \<open>
  When the slot right behind the table happens to be null, the loop ends where the table
  ends, and the parse is the union of the bits of the recognized tokens.
\<close>

lemma match_protos_null_behind:
  "match_protos tok (map Some proto_strings @ None # rest) 0 protos =
     Some (protos OR spec_token_bit tok)"
proof -
  consider "tok = ''arp''" | "tok = ''icmp4''" | "tok = ''igmp4''" | "tok = ''ospf2''"
    | "tok = ''tcp''" | "tok = ''udp''"
    | "tok \<noteq> ''arp''" "tok \<noteq> ''icmp4''" "tok \<noteq> ''igmp4''" "tok \<noteq> ''ospf2''"
      "tok \<noteq> ''tcp''" "tok \<noteq> ''udp''"
    by blast
  then show ?thesis
    by cases
      (simp_all add: proto_strings_def spec_token_bit_def strncmp_names PROTO_BIT_defs
        PROTO_defs)
qed

lemma parse_tokens_null_behind:
  "parse_tokens (map Some proto_strings @ None # rest) toks protos =
     Some (protos OR spec_parse toks)"
proof (induction toks arbitrary: protos)
  case Nil
  show ?case by (simp add: spec_parse_def)
next
  case (Cons t toks)
  have "spec_parse (t # toks) = spec_token_bit t OR spec_parse toks"
    by (simp add: spec_parse_def)
  then show ?case
    by (simp add: match_protos_null_behind Cons.IH or.assoc)
qed

lemma parse_protos_null_behind:
  "parse_protos (None # rest) s = Some (spec_parse (strtok_all s))"
  by (simp add: parse_protos_def parse_tokens_null_behind)

text \<open>
  The loop never ends inside the table: with nothing known of the memory behind it, the
  parse of a string that holds a token has no result.
\<close>

lemma match_protos_table_only: "match_protos tok (map Some proto_strings) 0 protos = None"
  by (simp add: proto_strings_def)

lemma parse_protos_nothing_behind:
  "strtok_all s \<noteq> [] \<Longrightarrow> parse_protos [] s = None"
  by (cases "strtok_all s") (simp_all add: parse_protos_def match_protos_table_only)

text \<open>
  Claim C5 does not hold of the code. The table \<open>proto_strings\<close> has no null slot at its
  end, so the loop compares every token with the strings behind the table as well. Where
  \<open>error_strings\<close> lies behind it, followed by a null slot, the token "Inject ARP" sets
  bit 6: the parse of "Inject ARP" is 64 where the union of the recognized bits is 0, the
  parse of "tcp,Inject ICMP" is 144 where "tcp" alone gives 16, and the parse of
  "arp,udp,Inject Classified" is 289 where the union is 33.
\<close>

theorem parse_protos_reads_past_table:
  "parse_protos (map Some error_strings @ [None]) ''Inject ARP'' = Some 64 \<and>
   spec_parse (strtok_all ''Inject ARP'') = 0 \<and>
   parse_protos (map Some error_strings @ [None]) ''tcp,Inject ICMP'' = Some 144 \<and>
   parse_protos (map Some error_strings @ [None]) ''tcp'' = Some 16 \<and>
   spec_parse (strtok_all ''tcp,Inject ICMP'') = 16 \<and>
   parse_protos (map Some error_strings @ [None]) ''arp,udp,Inject Classified'' = Some 289 \<and>
   spec_parse (strtok_all ''arp,udp,Inject Classified'') = 33"
proof (intro conjI)
  show "parse_protos (map Some error_strings @ [None]) ''Inject ARP'' = Some 64"
    by code_simp
  show "spec_parse (strtok_all ''Inject ARP'') = 0"
    by code_simp
  show "parse_protos (map Some error_strings @ [None]) ''tcp,Inject ICMP'' = Some 144"
    by code_simp
  show "parse_protos (map Some error_strings @ [None]) ''tcp'' = Some 16"
    by code_simp
  show "spec_parse (strtok_all ''tcp,Inject ICMP'') = 16"
    by code_simp
  show "parse_protos (map Some error_strings @ [None]) ''arp,udp,Inject Classified'' = Some 289"
    by code_simp
  show "spec_parse (strtok_all ''arp,udp,Inject Classified'') = 33"
    by code_simp
qed

section \<open>Facts about the classification engine\<close>

lemma ntohs_ntohs: "ntohs (ntohs x) = x"
  unfolding ntohs_def
  by (rule bit_word_eqI) (auto simp: bit_simps)

lemma ntohs_eq_iff: "x = ntohs c \<longleftrightarrow> ntohs x = c"
  using ntohs_ntohs by metis

lemma uint_diff_0: "uint (x :: u8) - uint y = 0 \<longleftrightarrow> x = y"
  by (simp add: word_uint_eq_iff)

lemma memcmp_mac_0: "memcmp_mac a b = 0 \<longleftrightarrow> a = b"
  by (cases a; cases b) (auto simp: memcmp_mac_def dest: word_uint_eqI)

lemma PROTO_BIT_values:
  "PROTO_BIT_ARP = 1" "PROTO_BIT_ICMP4 = 2" "PROTO_BIT_IGMP4 = 4"
  "PROTO_BIT_OSPF2 = 8" "PROTO_BIT_TCP = 16" "PROTO_BIT_UDP = 32"
  by (simp_all add: PROTO_BIT_defs PROTO_defs)

lemma NEXT_distinct: "NEXT_INJECT \<noteq> NEXT_UNTAPPED"
  by (simp add: NEXT_INJECT_def NEXT_UNTAPPED_def)

lemma update_arp_entry_valid:
  "update_arp_entry env b0 (current_as_arp b0) (sw_if_index_rx b0) =
     (if arp_reply_valid env b0 then [arp_upsert b0] else [])"
  unfolding update_arp_entry_def arp_reply_valid_def arp_upsert_def Let_def
  by (auto simp: ntohs_eq_iff memcmp_mac_0 split: option.splits)

lemma proto_bit_eq:
  "(case mode of
      ERROR_INJECT_CLASSIFIED \<Rightarrow>
        (if protocol (current_as_ip4 b0) = IP_PROTOCOL_TCP then PROTO_BIT_TCP
         else if protocol (current_as_ip4 b0) = IP_PROTOCOL_UDP then PROTO_BIT_UDP
         else if protocol (current_as_ip4 b0) = IP_PROTOCOL_OSPF then PROTO_BIT_OSPF2
         else if protocol (current_as_ip4 b0) = IP_PROTOCOL_IGMP then PROTO_BIT_IGMP4
         else 0)
    | ERROR_INJECT_ARP \<Rightarrow> PROTO_BIT_ARP
    | ERROR_INJECT_ICMP \<Rightarrow> PROTO_BIT_ICMP4) = determined_proto_bit mode b0"
  by (cases mode)
     (simp_all add: determined_proto_bit_def Let_def IP_PROTOCOL_TCP_def IP_PROTOCOL_UDP_def
        IP_PROTOCOL_OSPF_def IP_PROTOCOL_IGMP_def)

lemma tap_inject_buffer_eq:
  assumes "rx_in_tables rm b0"
  shows "tap_inject_buffer env rm mode b0 =
     Some (if redirects rm mode b0
           then (diverted_buffer rm b0, NEXT_INJECT,
                 if mode = ERROR_INJECT_ARP \<and> is_arp_reply b0 \<and> arp_reply_valid env b0
                 then [arp_upsert b0] else [])
           else (b0, NEXT_UNTAPPED, []))"
  using assms
  unfolding tap_inject_buffer_def Let_def proto_bit_eq update_arp_entry_valid
  unfolding rx_in_tables_def redirects_def spec_redirects_def shadow_of_def
    enabled_protocols_of_def diverted_buffer_def is_arp_reply_def Let_def
    sizeof_ethernet_header_def
  by (auto simp: ntohs_eq_iff)

lemma tap_inject_buffer_None:
  "tap_inject_buffer env rm mode b0 = None \<longleftrightarrow> \<not> rx_in_tables rm b0"
  unfolding tap_inject_buffer_def rx_in_tables_def Let_def by auto


lemma tap_inject_loop_eq:
  assumes "\<forall>b \<in> set f. rx_in_tables rm b"
  shows "tap_inject_loop env rm mode f acc =
     Some \<lparr>enqueued = enqueued acc @
              map (\<lambda>b0. if redirects rm mode b0 then (diverted_buffer rm b0, NEXT_INJECT)
                        else (b0, NEXT_UNTAPPED)) f,
            calls_made = calls_made acc @
              concat (map (\<lambda>b0. if redirects rm mode b0 \<and> mode = ERROR_INJECT_ARP \<and>
                                     is_arp_reply b0 \<and> arp_reply_valid env b0
                                  then [arp_upsert b0] else []) f),
            count = count acc + of_nat (length (filter (redirects rm mode) f))\<rparr>"
  using assms
proof (induction f arbitrary: acc)
  case Nil
  show ?case by simp
next
  case (Cons b0 f)
  have b: "rx_in_tables rm b0" and f: "\<forall>b \<in> set f. rx_in_tables rm b"
    using Cons.prems by simp_all
  show ?case
    by (simp add: tap_inject_buffer_eq [OF b] Cons.IH [OF f] NEXT_distinct
        NEXT_distinct [symmetric])
qed

lemma tap_inject_func_eq:
  assumes "\<forall>b \<in> set f. rx_in_tables rm b"
  shows "tap_inject_func env rm f mode =
     Some \<lparr>enqueued =
              map (\<lambda>b0. if redirects rm mode b0 then (diverted_buffer rm b0, NEXT_INJECT)
                        else (b0, NEXT_UNTAPPED)) f,
            calls_made =
              concat (map (\<lambda>b0. if redirects rm mode b0 \<and> mode = ERROR_INJECT_ARP \<and>
                                     is_arp_reply b0 \<and> arp_reply_valid env b0
                                  then [arp_upsert b0] else []) f),
            count = of_nat (length (filter (redirects rm mode) f))\<rparr>"
  unfolding tap_inject_func_def tap_inject_loop_eq [OF assms] by simp

text \<open>
  Claim C1, as amended. At each of the three entry points, every packet of a frame whose
  ingress interface is inside the tables is redirected (next index inject, egress
  interface the shadow identifier of the ingress interface) if and only if that shadow
  identifier is neither 0 nor the sentinel "none", the enabled protocol set is not empty,
  and the set contains the packet's determined protocol bit; every other packet is
  enqueued unchanged on the untapped path.
\<close>

theorem classification_redirect_iff:
  assumes "\<forall>b \<in> set f. rx_in_tables rm b" and "i < length f"
  shows "\<exists>r. tap_inject_func env rm f mode = Some r \<and>
           length (enqueued r) = length f \<and>
           (snd (enqueued r ! i) = NEXT_INJECT \<and>
            sw_if_index_tx (fst (enqueued r ! i)) = shadow_of rm (f ! i)
              \<longleftrightarrow> redirects rm mode (f ! i)) \<and>
           (\<not> redirects rm mode (f ! i) \<longrightarrow> enqueued r ! i = (f ! i, NEXT_UNTAPPED))"
  using assms(2)
  by (simp add: tap_inject_func_eq [OF assms(1)] diverted_buffer_def NEXT_distinct
      NEXT_distinct [symmetric])

lemma ex_values:
  "ip4_addr 10 0 0 1 = 0x0100000A" "ip4_addr 10 0 0 5 = 0x0500000A"
  "ip4_fib_mask 24 = 0x00FFFFFF"
  by (simp_all add: ip4_addr_def ip4_fib_mask_def clib_host_to_net_u32_def mask_eq_exp_minus_1)

lemma ex_rx_in_tables: "rx_in_tables (ex_rm shadow protos) (ex_buffer src op)"
  by (simp add: rx_in_tables_def ex_rm_def ex_buffer_def)

lemma ex_shadow_of: "shadow_of (ex_rm shadow protos) (ex_buffer src op) = shadow"
  by (simp add: shadow_of_def ex_rm_def ex_buffer_def)

lemma ex_enabled: "enabled_protocols_of (ex_rm shadow protos) (ex_buffer src op) = protos"
  by (simp add: enabled_protocols_of_def ex_rm_def ex_buffer_def)

lemma ex_is_reply: "is_arp_reply (ex_buffer src op) \<longleftrightarrow> op = ETHERNET_ARP_OPCODE_reply"
  by (simp add: is_arp_reply_def ex_buffer_def ex_arp_def ntohs_ntohs)

text \<open>
  An interface that diverts only ARP: an ARP packet is redirected to the shadow 7, and
  the same packet at the ICMP entry point is not.
\<close>

theorem classification_redirect_iff_witness:
  "rx_in_tables (ex_rm 7 PROTO_BIT_ARP) (ex_buffer (Mac 0x11 0x11 0x11 0x11 0x11 0x11) 2) \<and>
   redirects (ex_rm 7 PROTO_BIT_ARP) ERROR_INJECT_ARP
     (ex_buffer (Mac 0x11 0x11 0x11 0x11 0x11 0x11) 2) \<and>
   \<not> redirects (ex_rm 7 PROTO_BIT_ARP) ERROR_INJECT_ICMP
     (ex_buffer (Mac 0x11 0x11 0x11 0x11 0x11 0x11) 2) \<and>
   (\<exists>r. tap_inject_func ex_env (ex_rm 7 PROTO_BIT_ARP)
          [ex_buffer (Mac 0x11 0x11 0x11 0x11 0x11 0x11) 2] ERROR_INJECT_ARP = Some r \<and>
        snd (enqueued r ! 0) = NEXT_INJECT \<and> sw_if_index_tx (fst (enqueued r ! 0)) = 7) \<and>
   (\<exists>r. tap_inject_func ex_env (ex_rm 7 PROTO_BIT_ARP)
          [ex_buffer (Mac 0x11 0x11 0x11 0x11 0x11 0x11) 2] ERROR_INJECT_ICMP = Some r \<and>
        enqueued r ! 0 = (ex_buffer (Mac 0x11 0x11 0x11 0x11 0x11 0x11) 2, NEXT_UNTAPPED))"
proof -
  let ?b = "ex_buffer (Mac 0x11 0x11 0x11 0x11 0x11 0x11) 2"
  let ?rm = "ex_rm 7 PROTO_BIT_ARP"
  have h: "\<forall>b \<in> set [?b]. rx_in_tables ?rm b"
    by (simp add: ex_rx_in_tables)
  have i: "0 < length [?b]" by simp
  have r1: "redirects ?rm ERROR_INJECT_ARP ([?b] ! 0)"
    by (simp add: redirects_def spec_redirects_def ex_shadow_of ex_enabled
        determined_proto_bit_def PROTO_BIT_values)
  have r2: "\<not> redirects ?rm ERROR_INJECT_ICMP ([?b] ! 0)"
    by (simp add: redirects_def spec_redirects_def ex_shadow_of ex_enabled
        determined_proto_bit_def PROTO_BIT_values)
  have s: "shadow_of ?rm ([?b] ! 0) = 7" by (simp add: ex_shadow_of)
  from classification_redirect_iff [OF h i, of ex_env ERROR_INJECT_ARP] r1 s
  have a: "\<exists>r. tap_inject_func ex_env ?rm [?b] ERROR_INJECT_ARP = Some r \<and>
        snd (enqueued r ! 0) = NEXT_INJECT \<and> sw_if_index_tx (fst (enqueued r ! 0)) = 7"
    by metis
  from classification_redirect_iff [OF h i, of ex_env ERROR_INJECT_ICMP] r2
  have b: "\<exists>r. tap_inject_func ex_env ?rm [?b] ERROR_INJECT_ICMP = Some r \<and>
        enqueued r ! 0 = ([?b] ! 0, NEXT_UNTAPPED)"
    by metis
  from ex_rx_in_tables r1 r2 a b show ?thesis by simp
qed

text \<open>
  Claim C2. At the ARP entry point the calls made for a frame are, packet by packet,
  exactly one upsert of (ARP sender IP, ARP sender hardware address) for the ingress
  interface when the packet is redirected, its opcode is reply and every validation
  check holds, and nothing otherwise. So a reply whose frame source differs from its ARP
  sender hardware address is never learned, and no packet with another opcode is.
\<close>

theorem arp_reply_learning:
  assumes "\<forall>b \<in> set f. rx_in_tables rm b"
  shows "\<exists>r. tap_inject_arp env rm f = Some r \<and>
           calls_made r =
             concat (map (\<lambda>b0. if redirects rm ERROR_INJECT_ARP b0 \<and> is_arp_reply b0 \<and>
                                    arp_reply_valid env b0
                                 then [arp_upsert b0] else []) f)"
  by (simp add: tap_inject_arp_def tap_inject_func_eq [OF assms])

lemma ex_redirects_arp: "redirects (ex_rm 7 PROTO_BIT_ARP) ERROR_INJECT_ARP (ex_buffer src op)"
  by (simp add: redirects_def spec_redirects_def ex_shadow_of ex_enabled
      determined_proto_bit_def PROTO_BIT_values)

lemma ex_matching:
  "ip4_interface_address_matching_destination ex_env 0x0100000A 1 =
     Some (0x0100000A, (0x0100000A, 24))"
  by (simp add: ex_env_def reference_env_def ip4_destination_matches_route_def ex_values)

lemma ex_matches_interface:
  "ip4_destination_matches_interface ex_env 0x0500000A (0x0100000A, 24)"
  by (simp add: ex_env_def reference_env_def ip4_destination_matches_route_def ex_values)

lemma ex_cast: "ethernet_address_cast ex_env (Mac 0x02 0 0 0 0 0x01) = ETHERNET_ADDRESS_UNICAST"
  by (simp add: ex_env_def reference_env_def ETHERNET_ADDRESS_UNICAST_def)

lemma ex_valid:
  "arp_reply_valid ex_env (ex_buffer src op) \<longleftrightarrow> src = Mac 0x11 0x11 0x11 0x11 0x11 0x11"
  by (simp add: arp_reply_valid_def ex_buffer_def ex_arp_def ntohs_ntohs
      ETHERNET_ARP_HARDWARE_TYPE_ethernet_def ETHERNET_TYPE_IP4_def ex_matching
      ex_matches_interface ex_cast ex_values)

text \<open>
  The cases of the specification: the valid reply from 10.0.0.5 gives exactly one
  upsert; the reply with frame source AA:AA:AA:AA:AA:AA gives none; an ARP request
  gives none.
\<close>

theorem arp_reply_learning_witness:
  "rx_in_tables (ex_rm 7 PROTO_BIT_ARP) (ex_buffer (Mac 0x11 0x11 0x11 0x11 0x11 0x11) 2) \<and>
   (\<exists>r. tap_inject_arp ex_env (ex_rm 7 PROTO_BIT_ARP)
          [ex_buffer (Mac 0x11 0x11 0x11 0x11 0x11 0x11) 2] = Some r \<and>
        calls_made r =
          [Vnet_arp_set_ip4_over_ethernet 1 (NOT 0)
             \<lparr>ethernet = Mac 0x11 0x11 0x11 0x11 0x11 0x11, ip4 = ip4_addr 10 0 0 5\<rparr> 0]) \<and>
   (\<exists>r. tap_inject_arp ex_env (ex_rm 7 PROTO_BIT_ARP)
          [ex_buffer (Mac 0xAA 0xAA 0xAA 0xAA 0xAA 0xAA) 2] = Some r \<and> calls_made r = []) \<and>
   (\<exists>r. tap_inject_arp ex_env (ex_rm 7 PROTO_BIT_ARP)
          [ex_buffer (Mac 0x11 0x11 0x11 0x11 0x11 0x11) 1] = Some r \<and> calls_made r = [])"
proof -
  let ?rm = "ex_rm 7 PROTO_BIT_ARP"
  have h: "\<forall>b \<in> set [ex_buffer src op]. rx_in_tables ?rm b" for src op
    by (simp add: ex_rx_in_tables)
  have up: "arp_upsert (ex_buffer (Mac 0x11 0x11 0x11 0x11 0x11 0x11) 2) =
      Vnet_arp_set_ip4_over_ethernet 1 (NOT 0)
        \<lparr>ethernet = Mac 0x11 0x11 0x11 0x11 0x11 0x11, ip4 = ip4_addr 10 0 0 5\<rparr> 0"
    by (simp add: arp_upsert_def ex_buffer_def ex_arp_def)
  have a: "\<exists>r. tap_inject_arp ex_env ?rm [ex_buffer (Mac 0x11 0x11 0x11 0x11 0x11 0x11) 2] = Some r \<and>
        calls_made r =
          [Vnet_arp_set_ip4_over_ethernet 1 (NOT 0)
             \<lparr>ethernet = Mac 0x11 0x11 0x11 0x11 0x11 0x11, ip4 = ip4_addr 10 0 0 5\<rparr> 0]"
    using arp_reply_learning [OF h [of "Mac 0x11 0x11 0x11 0x11 0x11 0x11" 2], where env = ex_env]
    by (simp add: ex_redirects_arp ex_is_reply ex_valid ETHERNET_ARP_OPCODE_reply_def up)
  have b: "\<exists>r. tap_inject_arp ex_env ?rm [ex_buffer (Mac 0xAA 0xAA 0xAA 0xAA 0xAA 0xAA) 2] = Some r \<and>
        calls_made r = []"
    using arp_reply_learning [OF h [of "Mac 0xAA 0xAA 0xAA 0xAA 0xAA 0xAA" 2], where env = ex_env]
    by (simp add: ex_redirects_arp ex_is_reply ex_valid ETHERNET_ARP_OPCODE_reply_def)
  have c: "\<exists>r. tap_inject_arp ex_env ?rm [ex_buffer (Mac 0x11 0x11 0x11 0x11 0x11 0x11) 1] = Some r \<and>
        calls_made r = []"
    using arp_reply_learning [OF h [of "Mac 0x11 0x11 0x11 0x11 0x11 0x11" 1], where env = ex_env]
    by (simp add: ex_redirects_arp ex_is_reply ex_valid ETHERNET_ARP_OPCODE_reply_def)
  from ex_rx_in_tables a b c show ?thesis by blast
qed

lemma tap_inject_buffer_zero_as_none:
  "tap_inject_buffer env (zero_as_none rm) mode b0 = tap_inject_buffer env rm mode b0"
  unfolding tap_inject_buffer_def zero_as_none_def Let_def
  by (auto simp: word_order.extremum_unique)

lemma tap_inject_loop_zero_as_none:
  "tap_inject_loop env (zero_as_none rm) mode f acc = tap_inject_loop env rm mode f acc"
  by (induction f arbitrary: acc)
     (simp_all add: tap_inject_buffer_zero_as_none split: option.splits)

text \<open>
  Claim C10. A shadow identifier 0 is treated like the sentinel "none": a frame whose
  packets all arrive on interfaces with shadow identifier 0 is enqueued unchanged on the
  untapped path, with no call made and nothing counted, whatever the enabled protocols
  and the packets are; and the engine gives the same result on any frame when every 0
  in the table is replaced by the sentinel.
\<close>

theorem shadow_zero_is_none:
  "((\<forall>b \<in> set f. rx_in_tables rm b \<and> shadow_of rm b = 0) \<longrightarrow>
      tap_inject_func env rm f mode =
        Some \<lparr>enqueued = map (\<lambda>b. (b, NEXT_UNTAPPED)) f, calls_made = [], count = 0\<rparr>)
   \<and> tap_inject_func env rm f mode = tap_inject_func env (zero_as_none rm) f mode"
proof (intro conjI impI)
  assume a: "\<forall>b \<in> set f. rx_in_tables rm b \<and> shadow_of rm b = 0"
  then have r: "\<forall>b \<in> set f. rx_in_tables rm b" by blast
  have n: "\<And>b. b \<in> set f \<Longrightarrow> \<not> redirects rm mode b"
    using a by (simp add: redirects_def)
  have f0: "filter (redirects rm mode) f = []"
    using n by (simp add: filter_empty_conv)
  have m1: "map (\<lambda>b0. if redirects rm mode b0 then (diverted_buffer rm b0, NEXT_INJECT)
                        else (b0, NEXT_UNTAPPED)) f = map (\<lambda>b. (b, NEXT_UNTAPPED)) f"
    using n by simp
  have m2: "concat (map (\<lambda>b0. if redirects rm mode b0 \<and> mode = ERROR_INJECT_ARP \<and>
                                     is_arp_reply b0 \<and> arp_reply_valid env b0
                                  then [arp_upsert b0] else []) f) = []"
    using n by simp
  show "tap_inject_func env rm f mode =
        Some \<lparr>enqueued = map (\<lambda>b. (b, NEXT_UNTAPPED)) f, calls_made = [], count = 0\<rparr>"
    unfolding tap_inject_func_eq [OF r] f0 m1 m2 by simp
next
  show "tap_inject_func env rm f mode = tap_inject_func env (zero_as_none rm) f mode"
    by (simp add: tap_inject_func_def tap_inject_loop_zero_as_none)
qed

theorem shadow_zero_is_none_witness:
  "rx_in_tables (ex_rm 0 63) (ex_buffer (Mac 0x11 0x11 0x11 0x11 0x11 0x11) 2) \<and>
   shadow_of (ex_rm 0 63) (ex_buffer (Mac 0x11 0x11 0x11 0x11 0x11 0x11) 2) = 0 \<and>
   tap_inject_func ex_env (ex_rm 0 63) [ex_buffer (Mac 0x11 0x11 0x11 0x11 0x11 0x11) 2]
     ERROR_INJECT_CLASSIFIED =
   Some \<lparr>enqueued = [(ex_buffer (Mac 0x11 0x11 0x11 0x11 0x11 0x11) 2, NEXT_UNTAPPED)],
         calls_made = [], count = 0\<rparr>"
proof -
  have h: "\<forall>b \<in> set [ex_buffer (Mac 0x11 0x11 0x11 0x11 0x11 0x11) 2].
      rx_in_tables (ex_rm 0 63) b \<and> shadow_of (ex_rm 0 63) b = 0"
    by (simp add: ex_rx_in_tables ex_shadow_of)
  from shadow_zero_is_none [THEN conjunct1, THEN mp, OF h, of ex_env ERROR_INJECT_CLASSIFIED]
  show ?thesis by (simp add: ex_rx_in_tables ex_shadow_of)
qed

section \<open>Facts about the OS state mirror\<close>

lemma reverse_lookup_none:
  "\<forall>m \<in> set ms. tap m \<noteq> k \<Longrightarrow> reverse_lookup ms k = NOT 0"
  by (induction ms) auto

lemma reverse_lookup_some:
  "\<exists>m \<in> set ms. tap m = k \<Longrightarrow>
   \<exists>m \<in> set ms. tap m = k \<and> reverse_lookup ms k = iface m"
  by (induction ms) auto

lemma reverse_lookup_mapped:
  assumes "\<forall>m \<in> set ms. iface m \<noteq> NOT 0"
  shows "reverse_lookup ms k \<noteq> NOT 0 \<longleftrightarrow> (\<exists>m \<in> set ms. tap m = k)"
proof
  assume "reverse_lookup ms k \<noteq> NOT 0"
  then show "\<exists>m \<in> set ms. tap m = k"
    using reverse_lookup_none [of ms k] by blast
next
  assume "\<exists>m \<in> set ms. tap m = k"
  from reverse_lookup_some [OF this] assms
  show "reverse_lookup ms k \<noteq> NOT 0" by metis
qed

text \<open>
  Claim C7. With a reverse mapping whose entries all name a fast-path interface (as
  every mapping that the setup command builds does), the route handler makes exactly one
  call of the route add/delete operation, with the event's destination, prefix length
  and gateway, the egress interface that the reverse mapping gives for the event's
  interface identifier, and delete or add after the event's delete flag, if and only if
  that identifier has an entry in the reverse mapping and the event's table is 254; for
  any other table, or without an entry, it makes no call.
\<close>

theorem route_mirror:
  assumes "\<forall>m \<in> set (tap_to_iface rm). iface m \<noteq> NOT 0"
  shows "add_del_route rm r is_del =
     (if (\<exists>m \<in> set (tap_to_iface rm). tap m = oif r) \<and> table r = 254
      then [Ip4_add_del_route_next_hop
              (if is_del \<noteq> 0 then IP4_ROUTE_FLAG_DEL else IP4_ROUTE_FLAG_ADD)
              (dst r) (rtm_dst_len r) (gateway r)
              (reverse_lookup (tap_to_iface rm) (oif r)) 0 (NOT 0) 0]
      else [])
     \<and> ((\<exists>m \<in> set (tap_to_iface rm). tap m = oif r) \<longrightarrow>
          (\<exists>m \<in> set (tap_to_iface rm).
              tap m = oif r \<and> reverse_lookup (tap_to_iface rm) (oif r) = iface m))"
  using reverse_lookup_mapped [OF assms, of "oif r"] reverse_lookup_some [of "tap_to_iface rm" "oif r"]
  by (auto simp: add_del_route_def Let_def)

text \<open>
  The example of the specification: with the shadow 12 mapped to interface 1, an event
  for table 254 gives one add (or one delete) with egress 1, the same event for table 10
  gives nothing.
\<close>

theorem route_mirror_witness:
  "list_all (\<lambda>m. iface m \<noteq> NOT 0) (tap_to_iface (ex_rm 7 PROTO_BIT_ARP)) \<and>
   add_del_route (ex_rm 7 PROTO_BIT_ARP) (ex_route 254) 0 =
     [Ip4_add_del_route_next_hop IP4_ROUTE_FLAG_ADD (ip4_addr 192 168 7 0) 24
        (ip4_addr 10 0 0 5) 1 0 (NOT 0) 0] \<and>
   add_del_route (ex_rm 7 PROTO_BIT_ARP) (ex_route 254) 2 =
     [Ip4_add_del_route_next_hop IP4_ROUTE_FLAG_DEL (ip4_addr 192 168 7 0) 24
        (ip4_addr 10 0 0 5) 1 0 (NOT 0) 0] \<and>
   add_del_route (ex_rm 7 PROTO_BIT_ARP) (ex_route 10) 0 = []"
proof -
  let ?rm = "ex_rm 7 PROTO_BIT_ARP"
  have h: "\<forall>m \<in> set (tap_to_iface ?rm). iface m \<noteq> NOT 0"
    by (simp add: ex_rm_def)
  have l: "reverse_lookup (tap_to_iface ?rm) 12 = 1"
    by (simp add: ex_rm_def)
  have e: "\<exists>m \<in> set (tap_to_iface ?rm). tap m = 12"
    by (simp add: ex_rm_def)
  have a: "add_del_route ?rm (ex_route 254) 0 =
     [Ip4_add_del_route_next_hop IP4_ROUTE_FLAG_ADD (ip4_addr 192 168 7 0) 24
        (ip4_addr 10 0 0 5) 1 0 (NOT 0) 0]"
    using route_mirror [OF h, of "ex_route 254" 0, THEN conjunct1] e l
    by (simp add: ex_route_def)
  have b: "add_del_route ?rm (ex_route 254) 2 =
     [Ip4_add_del_route_next_hop IP4_ROUTE_FLAG_DEL (ip4_addr 192 168 7 0) 24
        (ip4_addr 10 0 0 5) 1 0 (NOT 0) 0]"
    using route_mirror [OF h, of "ex_route 254" 2, THEN conjunct1] e l
    by (simp add: ex_route_def)
  have c: "add_del_route ?rm (ex_route 10) 0 = []"
    using route_mirror [OF h, of "ex_route 10" 0, THEN conjunct1]
    by (simp add: ex_route_def)
  have h': "list_all (\<lambda>m. iface m \<noteq> NOT 0) (tap_to_iface ?rm)"
    using h by (simp add: list_all_iff)
  from h' a b c show ?thesis by (intro conjI)
qed

text \<open>
  Claim C8. For an interface identifier without an entry in the reverse mapping the
  lookup gives "none", and the address, route and link handlers, called directly or
  through the notification callback, make no call into the forwarder; they have no
  error result.
\<close>

theorem unmapped_events_are_ignored:
  assumes "\<forall>m \<in> set (tap_to_iface rm). tap m \<noteq> k"
  shows "reverse_lookup (tap_to_iface rm) k = NOT 0 \<and>
         (ifa_index a = k \<longrightarrow>
            add_del_addr rm a is_del = [] \<and> netns_notify_cb sw_flags rm (NETNS_TYPE_ADDR a) fl = []) \<and>
         (oif r = k \<longrightarrow>
            add_del_route rm r is_del = [] \<and> netns_notify_cb sw_flags rm (NETNS_TYPE_ROUTE r) fl = []) \<and>
         (ifi_index l = k \<longrightarrow>
            add_del_link sw_flags rm l is_del = [] \<and> netns_notify_cb sw_flags rm (NETNS_TYPE_LINK l) fl = [])"
  using reverse_lookup_none [OF assms]
  by (simp add: add_del_addr_def add_del_route_def add_del_link_def netns_notify_cb_def Let_def)

text \<open>The identifier 99 is not mapped in the example table.\<close>

theorem unmapped_events_are_ignored_witness:
  "list_all (\<lambda>m. tap m \<noteq> 99) (tap_to_iface (ex_rm 7 PROTO_BIT_ARP)) \<and>
   reverse_lookup (tap_to_iface (ex_rm 7 PROTO_BIT_ARP)) 99 = NOT 0 \<and>
   add_del_addr (ex_rm 7 PROTO_BIT_ARP)
     \<lparr>ifa_index = 99, ifa_prefixlen = 24, local = ip4_addr 10 0 0 1\<rparr> 0 = [] \<and>
   add_del_route (ex_rm 7 PROTO_BIT_ARP)
     \<lparr>oif = 99, table = 254, rtm_dst_len = 24, dst = ip4_addr 192 168 7 0,
      gateway = ip4_addr 10 0 0 5\<rparr> 0 = [] \<and>
   add_del_link (\<lambda>i. 0) (ex_rm 7 PROTO_BIT_ARP) \<lparr>ifi_index = 99, ifi_flags = 1\<rparr> 0 = []"
proof -
  have h: "\<forall>m \<in> set (tap_to_iface (ex_rm 7 PROTO_BIT_ARP)). tap m \<noteq> 99"
    by (simp add: ex_rm_def)
  from unmapped_events_are_ignored [OF h, where is_del = 0 and sw_flags = "\<lambda>i. 0"
      and a = "\<lparr>ifa_index = 99, ifa_prefixlen = 24, local = ip4_addr 10 0 0 1\<rparr>"
      and r = "\<lparr>oif = 99, table = 254, rtm_dst_len = 24, dst = ip4_addr 192 168 7 0,
                gateway = ip4_addr 10 0 0 5\<rparr>"
      and l = "\<lparr>ifi_index = 99, ifi_flags = 1\<rparr>"] h
  show ?thesis by (simp add: list_all_iff)
qed

section \<open>Facts about the diversion setup\<close>

lemma and_push_bit_1: "i < 32 \<Longrightarrow> (x :: u32) AND push_bit i 1 \<noteq> 0 \<longleftrightarrow> bit x i"
proof -
  assume i: "i < 32"
  have "(x AND push_bit i 1 = 0) \<longleftrightarrow> \<not> bit x i"
  proof
    assume z: "x AND push_bit i 1 = 0"
    have "bit (x AND push_bit i 1) i \<longleftrightarrow> bit x i"
      unfolding bit_and_iff bit_push_bit_1 using i by simp
    with z show "\<not> bit x i" by simp
  next
    assume "\<not> bit x i"
    then show "x AND push_bit i 1 = 0"
    proof (intro bit_eqI)
      fix n
      show "bit (x AND push_bit i 1) n \<longleftrightarrow> bit (0 :: u32) n"
        unfolding bit_and_iff bit_push_bit_1 using \<open>\<not> bit x i\<close> by auto
    qed
  qed
  then show ?thesis by simp
qed

lemma has_proto_and:
  "protos AND PROTO_BIT_ARP \<noteq> 0 \<longleftrightarrow> has_proto protos PROTO_ARP"
  "protos AND PROTO_BIT_ICMP4 \<noteq> 0 \<longleftrightarrow> has_proto protos PROTO_ICMP4"
  "protos AND PROTO_BIT_IGMP4 \<noteq> 0 \<longleftrightarrow> has_proto protos PROTO_IGMP4"
  "protos AND PROTO_BIT_OSPF2 \<noteq> 0 \<longleftrightarrow> has_proto protos PROTO_OSPF2"
  "protos AND PROTO_BIT_TCP \<noteq> 0 \<longleftrightarrow> has_proto protos PROTO_TCP"
  "protos AND PROTO_BIT_UDP \<noteq> 0 \<longleftrightarrow> has_proto protos PROTO_UDP"
  unfolding PROTO_BIT_defs has_proto_def
  by (rule and_push_bit_1, simp add: PROTO_defs)+

lemma has_proto_and0:
  "protos AND PROTO_BIT_ARP = 0 \<longleftrightarrow> \<not> has_proto protos PROTO_ARP"
  "protos AND PROTO_BIT_ICMP4 = 0 \<longleftrightarrow> \<not> has_proto protos PROTO_ICMP4"
  "protos AND PROTO_BIT_IGMP4 = 0 \<longleftrightarrow> \<not> has_proto protos PROTO_IGMP4"
  using has_proto_and [of protos] by auto

lemma tap_inject_checks_eq:
  assumes "protos \<noteq> 0" and "iface_id \<noteq> NOT 0"
  shows "tap_inject_checks (Some nm) iface_id protos = spec_prerequisite_error protos"
  using assms
  unfolding tap_inject_checks_def spec_prerequisite_error_def has_proto_and has_proto_and0
  by simp

text \<open>
  Claim C6. For a non-empty protocol set, a valid interface and a given name, the checks
  of the setup command end with "ospf2 requires arp, icmp4, and igmp4" exactly when
  OSPF2 is in the set without all of ARP, ICMP4 and IGMP4; otherwise with "tcp requires
  arp and icmp4" exactly when TCP is in the set without ARP and ICMP4; otherwise with
  "udp requires arp, icmp4, and igmp4" exactly when UDP is in the set without all of
  ARP, ICMP4 and IGMP4; otherwise they pass. The command returns that error and leaves
  the state as it was.
\<close>

theorem prerequisite_validation:
  assumes "protos \<noteq> 0" and "iface_id \<noteq> NOT 0"
  shows "tap_inject_checks (Some nm) iface_id protos = spec_prerequisite_error protos \<and>
         (\<forall>e. spec_prerequisite_error protos = Some e \<longrightarrow>
              tap_inject env (Some nm) iface_id protos s = Some (Some e, s))"
  using tap_inject_checks_eq [OF assms, of nm]
  by (simp add: tap_inject_def)

text \<open>
  The sets of the specification's examples: ospf2 alone and with arp are rejected, ospf2
  with arp, icmp4 and igmp4 is accepted, and of several failing checks the first in the
  order OSPF2, TCP, UDP is reported.
\<close>

theorem prerequisite_validation_witness:
  "PROTO_BIT_OSPF2 \<noteq> 0 \<and> (1 :: u32) \<noteq> NOT 0 \<and>
   tap_inject_checks (Some ''tap0'') 1 PROTO_BIT_OSPF2 =
     Some ''ospf2 requires arp, icmp4, and igmp4'' \<and>
   tap_inject_checks (Some ''tap0'') 1 (PROTO_BIT_OSPF2 OR PROTO_BIT_ARP) =
     Some ''ospf2 requires arp, icmp4, and igmp4'' \<and>
   tap_inject_checks (Some ''tap0'') 1
     (PROTO_BIT_OSPF2 OR PROTO_BIT_ARP OR PROTO_BIT_ICMP4 OR PROTO_BIT_IGMP4) = None \<and>
   tap_inject_checks (Some ''tap0'') 1
     (PROTO_BIT_TCP OR PROTO_BIT_UDP OR PROTO_BIT_ARP OR PROTO_BIT_ICMP4) =
     Some ''udp requires arp, icmp4, and igmp4'' \<and>
   tap_inject_checks (Some ''tap0'') 1 (PROTO_BIT_UDP OR PROTO_BIT_TCP OR PROTO_BIT_OSPF2) =
     Some ''ospf2 requires arp, icmp4, and igmp4'' \<and>
   tap_inject_checks (Some ''tap0'') 1 (PROTO_BIT_UDP OR PROTO_BIT_TCP) =
     Some ''tcp requires arp and icmp4'' \<and>
   tap_inject (ex_setup_env 7 0) (Some ''tap0'') 1 PROTO_BIT_OSPF2 ex_state =
     Some (Some ''ospf2 requires arp, icmp4, and igmp4'', ex_state)"
proof -
  have i: "(1 :: u32) \<noteq> NOT 0" by simp
  have e1: "spec_prerequisite_error 8 = Some ''ospf2 requires arp, icmp4, and igmp4''"
    by (simp add: spec_prerequisite_error_def has_proto_def PROTO_defs)
  have e2: "spec_prerequisite_error 9 = Some ''ospf2 requires arp, icmp4, and igmp4''"
    by (simp add: spec_prerequisite_error_def has_proto_def PROTO_defs)
  have e3: "spec_prerequisite_error 15 = None"
    by (simp add: spec_prerequisite_error_def has_proto_def PROTO_defs)
  have e4: "spec_prerequisite_error 51 = Some ''udp requires arp, icmp4, and igmp4''"
    by (simp add: spec_prerequisite_error_def has_proto_def PROTO_defs)
  have e5: "spec_prerequisite_error 56 = Some ''ospf2 requires arp, icmp4, and igmp4''"
    by (simp add: spec_prerequisite_error_def has_proto_def PROTO_defs)
  have e6: "spec_prerequisite_error 48 = Some ''tcp requires arp and icmp4''"
    by (simp add: spec_prerequisite_error_def has_proto_def PROTO_defs)
  note V = prerequisite_validation [OF _ i, where nm = "''tap0''" and env = "ex_setup_env 7 0"
      and s = ex_state]
  have c1: "tap_inject_checks (Some ''tap0'') 1 8 = Some ''ospf2 requires arp, icmp4, and igmp4''"
    using V [of 8] e1 by simp
  have c2: "tap_inject_checks (Some ''tap0'') 1 9 = Some ''ospf2 requires arp, icmp4, and igmp4''"
    using V [of 9] e2 by simp
  have c3: "tap_inject_checks (Some ''tap0'') 1 15 = None"
    using V [of 15] e3 by simp
  have c4: "tap_inject_checks (Some ''tap0'') 1 51 = Some ''udp requires arp, icmp4, and igmp4''"
    using V [of 51] e4 by simp
  have c5: "tap_inject_checks (Some ''tap0'') 1 56 = Some ''ospf2 requires arp, icmp4, and igmp4''"
    using V [of 56] e5 by simp
  have c6: "tap_inject_checks (Some ''tap0'') 1 48 = Some ''tcp requires arp and icmp4''"
    using V [of 48] e6 by simp
  have c7: "tap_inject (ex_setup_env 7 0) (Some ''tap0'') 1 8 ex_state =
     Some (Some ''ospf2 requires arp, icmp4, and igmp4'', ex_state)"
    using V [of 8] e1 by simp
  show ?thesis
    using i c1 c2 c3 c4 c5 c6 c7 by (simp add: PROTO_BIT_values)
qed



lemma tap_inject_error_rm:
  assumes "tap_inject env name iface_id protos s = Some (Some e, s')"
  shows "g_rm s' = g_rm s"
proof (cases "tap_inject_checks name iface_id protos")
  case (Some e0)
  with assms show ?thesis by (simp add: tap_inject_def)
next
  case None
  obtain err tap_id cs where d: "do_tap_connect env (the name) iface_id = (err, tap_id, cs)"
    by (cases "do_tap_connect env (the name) iface_id") auto
  show ?thesis
  proof (cases err)
    case (Some e1)
    with assms None d show ?thesis by (auto simp: tap_inject_def Let_def split: if_splits)
  next
    case ne: None
    with assms None d show ?thesis
      by (auto simp: tap_inject_def Let_def split: option.splits)
  qed
qed


lemma ex_state_rm:
  "g_rm ex_state =
     \<lparr>iface_to_tap = [NOT 0, NOT 0], iface_to_protos = [0, 0], tap_to_iface = [],
      ns_index = NOT 0\<rparr>"
  "ip4_next_index ex_state = NOT 0" "ip4_multicast_arc_added ex_state = 0"
  "call_log ex_state = []"
  by (simp_all add: ex_state_def initial_state_def interface_add_del_def vec_validate_def)

lemma ex_do_tap_connect:
  "do_tap_connect (ex_setup_env t ns) nm i =
     (None, t,
      [Vnet_tap_connect nm (Mac 0x02 0 0 0 0 0x01), Set_int_l2_mode_xc t i,
       Vnet_sw_interface_set_flags t VNET_SW_INTERFACE_FLAG_ADMIN_UP])"
  by (simp add: do_tap_connect_def ex_setup_env_def set_tap_hwaddr_def set_tap_link_state_def)

lemma ex_setup_env_sel:
  "netns_open_result (ex_setup_env t ns) = ns"
  "if_nametoindex_result (ex_setup_env t ns) = 12"
  "vlib_node_add_next_result (ex_setup_env t ns) = 5"
  by (simp_all add: ex_setup_env_def)

lemma ex_checks_3: "tap_inject_checks (Some ''tap0'') 1 3 = None"
  by (simp add: tap_inject_checks_def PROTO_BIT_values)

text \<open>
  What the command does whenever \<open>netns_open\<close> fails after a successful creation of the
  shadow interface: it deletes the tap, and still registers the handlers, commits both
  mappings and returns 0.
\<close>

lemma open_namespace_failure_general:
  assumes c: "tap_inject_checks (Some nm) iface_id protos = None"
    and d: "do_tap_connect env nm iface_id = (None, tap_id, cs)"
    and p: "protos AND PROTO_BIT_ARP \<noteq> 0 \<or> protos AND PROTO_BIT_ICMP4 \<noteq> 0"
    and n: "ns_index (g_rm s) = NOT 0" "netns_open_result env = NOT 0"
    and r: "unat iface_id < length (iface_to_tap (g_rm s))"
           "unat iface_id < length (iface_to_protos (g_rm s))"
  shows "\<exists>s'. tap_inject env (Some nm) iface_id protos s = Some (None, s') \<and>
           iface_to_tap (g_rm s') ! unat iface_id = tap_id \<and>
           iface_to_protos (g_rm s') ! unat iface_id = protos \<and>
           tap_to_iface (g_rm s') =
             tap_to_iface (g_rm s) @ [\<lparr>tap = if_nametoindex_result env, iface = iface_id\<rparr>] \<and>
           Vnet_tap_delete tap_id \<in> set (call_log s') \<and>
           set (tap_inject_register protos) \<subseteq> set (call_log s')"
proof -
  define s1 where "s1 = s\<lparr>call_log := call_log s @ cs\<rparr>"
  define s2 where "s2 = tap_inject_open_ns env protos tap_id s1"
  define s3 where "s3 = (if protos AND PROTO_BIT_IGMP4 \<noteq> 0
                         then add_ip4_multicast_arc env s2 else s2)"
  define s4 where "s4 = s3\<lparr>call_log := call_log s3 @ tap_inject_register protos\<rparr>"
  have s2: "g_rm s2 = (g_rm s)\<lparr>ns_index := NOT 0\<rparr>"
    "call_log s2 = call_log s @ cs @ [Netns_open, Vnet_tap_delete tap_id]"
    using p n by (auto simp: s2_def s1_def tap_inject_open_ns_def Let_def)
  have s3: "g_rm s3 = g_rm s2" "set (call_log s2) \<subseteq> set (call_log s3)"
    by (auto simp: s3_def add_ip4_multicast_arc_def ip4_lookup_next_index_def Let_def
        split: prod.splits if_splits)
  have s4: "g_rm s4 = g_rm s2" "set (call_log s2) \<subseteq> set (call_log s4)"
    "set (tap_inject_register protos) \<subseteq> set (call_log s4)"
    using s3 by (auto simp: s4_def)
  have k: "tap_inject_commit env iface_id tap_id protos (g_rm s4) =
      Some (insert_tap_to_iface (if_nametoindex_result env) iface_id
              ((g_rm s4)\<lparr>iface_to_tap := (iface_to_tap (g_rm s4))[unat iface_id := tap_id],
                 iface_to_protos := (iface_to_protos (g_rm s4))[unat iface_id := protos]\<rparr>))"
    using r by (simp add: tap_inject_commit_def s4(1) s2(1))
  have t: "tap_inject env (Some nm) iface_id protos s =
      Some (None, s4\<lparr>g_rm := insert_tap_to_iface (if_nametoindex_result env) iface_id
              ((g_rm s4)\<lparr>iface_to_tap := (iface_to_tap (g_rm s4))[unat iface_id := tap_id],
                 iface_to_protos := (iface_to_protos (g_rm s4))[unat iface_id := protos]\<rparr>)\<rparr>)"
    using c d k unfolding s4_def s3_def s2_def s1_def
    by (simp add: tap_inject_def Let_def)
  show ?thesis
    unfolding t using r s4 s2
    by (auto simp: insert_tap_to_iface_def)
qed

text \<open>
  Claim C3 does not hold of the code. With ARP and ICMP4 enabled and no subscription
  yet, \<open>netns_open\<close> fails: the tap 7 is deleted, but the command goes on, registers
  both handlers, stores the deleted tap and the protocol set for interface 1, adds the
  reverse entry, and returns 0 instead of the error "failed to open namespace".
\<close>

theorem open_namespace_failure_still_installs:
  "tap_inject (ex_setup_env 7 (NOT 0)) (Some ''tap0'') 1 (PROTO_BIT_ARP OR PROTO_BIT_ICMP4)
     ex_state =
   Some (None,
     \<lparr>g_rm = \<lparr>iface_to_tap = [NOT 0, 7], iface_to_protos = [0, 3],
              tap_to_iface = [\<lparr>tap = 12, iface = 1\<rparr>], ns_index = NOT 0\<rparr>,
      ip4_next_index = NOT 0, ip4_multicast_arc_added = 0,
      call_log =
        [Vnet_tap_connect ''tap0'' (Mac 0x02 0 0 0 0 0x01), Set_int_l2_mode_xc 7 1,
         Vnet_sw_interface_set_flags 7 VNET_SW_INTERFACE_FLAG_ADMIN_UP,
         Netns_open, Vnet_tap_delete 7,
         Ethernet_register_input_type ETHERNET_TYPE_ARP Tap_inject_arp_node,
         Ip4_register_protocol IP_PROTOCOL_ICMP Tap_inject_icmp_node]\<rparr>)"
proof -
  have p: "PROTO_BIT_ARP OR PROTO_BIT_ICMP4 = (3 :: u32)" by (simp add: PROTO_BIT_values)
  have s: "ex_state = \<lparr>g_rm = \<lparr>iface_to_tap = [NOT 0, NOT 0], iface_to_protos = [0, 0],
              tap_to_iface = [], ns_index = NOT 0\<rparr>,
      ip4_next_index = NOT 0, ip4_multicast_arc_added = 0, call_log = []\<rparr>"
    by (simp add: ex_state_def initial_state_def interface_add_del_def vec_validate_def)
  show ?thesis
    unfolding p
    by (simp add: tap_inject_def ex_checks_3 ex_do_tap_connect s tap_inject_open_ns_def
        tap_inject_register_def tap_inject_commit_def insert_tap_to_iface_def
        PROTO_BIT_values ex_setup_env_sel)
qed


lemma ip4_lookup_next_index_view:
  "ip4_multicast_arc_added (snd (ip4_lookup_next_index env s)) = ip4_multicast_arc_added s"
  "filter is_route_call (call_log (snd (ip4_lookup_next_index env s))) =
     filter is_route_call (call_log s)"
  "g_rm (snd (ip4_lookup_next_index env s)) = g_rm s"
  by (simp_all add: ip4_lookup_next_index_def)

lemma multicast_route_value: "ip4_addr 224 0 0 0 = 0x000000E0"
  by (simp add: ip4_addr_def)

lemma add_ip4_multicast_arc_first:
  assumes "ip4_multicast_arc_added s = 0"
  shows "ip4_multicast_arc_added (add_ip4_multicast_arc env s) = 1"
    and "\<exists>c. is_multicast_arc_route c \<and> is_route_call c \<and>
           filter is_route_call (call_log (add_ip4_multicast_arc env s)) =
             filter is_route_call (call_log s) @ [c]"
    and "g_rm (add_ip4_multicast_arc env s) = g_rm s"
proof -
  obtain n s1 where l: "ip4_lookup_next_index env s = (n, s1)"
    by (cases "ip4_lookup_next_index env s") auto
  have s1: "filter is_route_call (call_log s1) = filter is_route_call (call_log s)"
    "g_rm s1 = g_rm s"
    using ip4_lookup_next_index_view [of env s] l by simp_all
  show "ip4_multicast_arc_added (add_ip4_multicast_arc env s) = 1"
    using assms l by (simp add: add_ip4_multicast_arc_def Let_def)
  show "g_rm (add_ip4_multicast_arc env s) = g_rm s"
    using assms l s1 by (simp add: add_ip4_multicast_arc_def Let_def)
  let ?a = "\<lparr>flags = IP4_ROUTE_FLAG_TABLE_ID OR IP4_ROUTE_FLAG_ADD,
             table_index_or_table_id = 0, dst_address_as_u32 = 0x000000E0,
             dst_address_length = 24, adj_index = NOT 0,
             add_adj = \<lparr>explicit_fib_index = NOT 0,
                        rewrite_header_node_index = Ip4_rewrite_node,
                        lookup_next_index = n, if_address_index = NOT 0\<rparr>,
             n_add_adj = 1\<rparr>"
  have m: "is_multicast_arc_route (Ip4_add_del_route ?a)"
    by (simp add: is_multicast_arc_route_def multicast_route_value
        IP4_ROUTE_FLAG_TABLE_ID_def IP4_ROUTE_FLAG_ADD_def)
  have "filter is_route_call (call_log (add_ip4_multicast_arc env s)) =
          filter is_route_call (call_log s) @ [Ip4_add_del_route ?a]"
    using assms l s1 by (simp add: add_ip4_multicast_arc_def Let_def)
  with m show "\<exists>c. is_multicast_arc_route c \<and> is_route_call c \<and>
           filter is_route_call (call_log (add_ip4_multicast_arc env s)) =
             filter is_route_call (call_log s) @ [c]"
    by (intro exI [of _ "Ip4_add_del_route ?a"]) simp
qed

lemma add_ip4_multicast_arc_later:
  "ip4_multicast_arc_added s \<noteq> 0 \<Longrightarrow> add_ip4_multicast_arc env s = s"
  by (simp add: add_ip4_multicast_arc_def)

lemma arc_inv_add: "arc_inv s \<Longrightarrow> arc_inv (add_ip4_multicast_arc env s)"
proof (cases "ip4_multicast_arc_added s = 0")
  case True
  assume "arc_inv s"
  with True have e: "filter is_route_call (call_log s) = []" by (simp add: arc_inv_def)
  from add_ip4_multicast_arc_first [OF True, of env] e
  show ?thesis by (auto simp: arc_inv_def)
next
  case False
  assume "arc_inv s"
  then show ?thesis using False by (simp add: add_ip4_multicast_arc_later)
qed

lemma arc_inv_cong:
  assumes "ip4_multicast_arc_added t = ip4_multicast_arc_added s"
    and "filter is_route_call (call_log t) = filter is_route_call (call_log s)"
  shows "arc_inv t = arc_inv s"
  using assms by (simp add: arc_inv_def)

lemma do_tap_connect_no_route:
  "filter is_route_call (snd (snd (do_tap_connect env nm iface_id))) = []"
  by (simp add: do_tap_connect_def Let_def)

lemma tap_inject_open_ns_view:
  "ip4_multicast_arc_added (tap_inject_open_ns env protos tap_id s) = ip4_multicast_arc_added s"
  "filter is_route_call (call_log (tap_inject_open_ns env protos tap_id s)) =
     filter is_route_call (call_log s)"
  by (simp_all add: tap_inject_open_ns_def Let_def)

lemma tap_inject_register_no_route: "filter is_route_call (tap_inject_register protos) = []"
  by (simp add: tap_inject_register_def)

lemma tap_inject_arc_inv:
  assumes t: "tap_inject env name iface_id protos s = Some (err, s')" and i: "arc_inv s"
  shows "arc_inv s'"
proof (cases "tap_inject_checks name iface_id protos")
  case (Some e0)
  with t i show ?thesis by (simp add: tap_inject_def)
next
  case None
  obtain e tap_id cs where d: "do_tap_connect env (the name) iface_id = (e, tap_id, cs)"
    by (cases "do_tap_connect env (the name) iface_id") auto
  have cs: "filter is_route_call cs = []"
    using do_tap_connect_no_route [of env "the name" iface_id] d by simp
  let ?s1 = "s\<lparr>call_log := call_log s @ cs\<rparr>"
  have i1: "arc_inv ?s1"
    using i cs by (simp add: arc_inv_def)
  show ?thesis
  proof (cases e)
    case (Some e1)
    with t None d have "s' = (if tap_id \<noteq> NOT 0
        then ?s1\<lparr>call_log := call_log ?s1 @ [Vnet_tap_delete tap_id]\<rparr> else ?s1)"
      by (simp add: tap_inject_def Let_def)
    then show ?thesis using i1 by (auto simp: arc_inv_def)
  next
    case ne: None
    define s2 where "s2 = tap_inject_open_ns env protos tap_id ?s1"
    define s3 where "s3 = (if protos AND PROTO_BIT_IGMP4 \<noteq> 0
                           then add_ip4_multicast_arc env s2 else s2)"
    define s4 where "s4 = s3\<lparr>call_log := call_log s3 @ tap_inject_register protos\<rparr>"
    have i2: "arc_inv s2"
      unfolding s2_def
      using arc_inv_cong [OF tap_inject_open_ns_view, of env protos tap_id ?s1] i1 by simp
    have i3: "arc_inv s3"
      unfolding s3_def using i2 arc_inv_add by simp
    have "arc_inv s4 = arc_inv s3"
      by (rule arc_inv_cong) (simp_all add: s4_def tap_inject_register_no_route)
    with i3 have i4: "arc_inv s4" by simp
    from t None d ne obtain rm' where "s' = s4\<lparr>g_rm := rm'\<rparr>"
      unfolding s4_def s3_def s2_def
      by (auto simp: tap_inject_def Let_def split: option.splits)
    then have "arc_inv s' = arc_inv s4"
      by (intro arc_inv_cong) simp_all
    with i4 show ?thesis by simp
  qed
qed

lemma run_events_arc_inv:
  "run_events evs s = Some s' \<Longrightarrow> arc_inv s \<Longrightarrow> arc_inv s'"
proof (induction evs s rule: run_events.induct)
  case (1 s)
  then show ?case by simp
next
  case (2 sw_if_index rest s)
  have "arc_inv (s\<lparr>g_rm := interface_add_del sw_if_index (g_rm s)\<rparr>) = arc_inv s"
    by (rule arc_inv_cong) simp_all
  with 2 show ?case by simp
next
  case (3 env name iface_id protos rest s)
  from "3.prems"(1) obtain err s1 where
    t: "tap_inject env name iface_id protos s = Some (err, s1)" and
    r: "run_events rest s1 = Some s'"
    by (auto split: option.splits)
  from tap_inject_arc_inv [OF t "3.prems"(2)] "3.IH" [OF t refl r] show ?case by simp
qed

lemma arc_inv_initial: "arc_inv initial_state"
  by (simp add: arc_inv_def initial_state_def)

text \<open>
  Claim C9. With the latch at 0, \<open>add_ip4_multicast_arc\<close> sets it to 1 and makes one
  route call, the add of 224.0.0.0/24; with the latch set it changes nothing, so a
  second invocation after a first is a no-op. Over any run of interface announcements
  and setup commands from the initial state, at most one route call is made, it is that
  add, and it has been made exactly when the latch is set.
\<close>

theorem multicast_arc_installed_once:
  "(ip4_multicast_arc_added s = 0 \<longrightarrow>
      ip4_multicast_arc_added (add_ip4_multicast_arc env s) = 1 \<and>
      (\<exists>c. is_multicast_arc_route c \<and>
           filter is_route_call (call_log (add_ip4_multicast_arc env s)) =
             filter is_route_call (call_log s) @ [c]))
   \<and> (ip4_multicast_arc_added s \<noteq> 0 \<longrightarrow> add_ip4_multicast_arc env s = s)
   \<and> add_ip4_multicast_arc env' (add_ip4_multicast_arc env s) = add_ip4_multicast_arc env s
   \<and> (run_events evs initial_state = Some s' \<longrightarrow>
        length (filter is_route_call (call_log s')) \<le> 1 \<and>
        list_all is_multicast_arc_route (filter is_route_call (call_log s')) \<and>
        (ip4_multicast_arc_added s' \<noteq> 0 \<longleftrightarrow> length (filter is_route_call (call_log s')) = 1))"
proof (intro conjI impI)
  assume z: "ip4_multicast_arc_added s = 0"
  show "ip4_multicast_arc_added (add_ip4_multicast_arc env s) = 1"
    by (rule add_ip4_multicast_arc_first(1) [OF z])
  show "\<exists>c. is_multicast_arc_route c \<and>
           filter is_route_call (call_log (add_ip4_multicast_arc env s)) =
             filter is_route_call (call_log s) @ [c]"
    using add_ip4_multicast_arc_first(2) [OF z, of env] by blast
next
  assume "ip4_multicast_arc_added s \<noteq> 0"
  then show "add_ip4_multicast_arc env s = s" by (rule add_ip4_multicast_arc_later)
next
  show "add_ip4_multicast_arc env' (add_ip4_multicast_arc env s) = add_ip4_multicast_arc env s"
  proof (cases "ip4_multicast_arc_added s = 0")
    case True
    from add_ip4_multicast_arc_first(1) [OF True, of env]
    have "ip4_multicast_arc_added (add_ip4_multicast_arc env s) \<noteq> 0" by simp
    then show ?thesis by (rule add_ip4_multicast_arc_later)
  next
    case False
    then show ?thesis by (simp add: add_ip4_multicast_arc_later)
  qed
next
  assume r: "run_events evs initial_state = Some s'"
  from run_events_arc_inv [OF r arc_inv_initial] have a: "arc_inv s'" .
  show "length (filter is_route_call (call_log s')) \<le> 1"
    using a by (simp add: arc_inv_def split: if_splits)
  show "list_all is_multicast_arc_route (filter is_route_call (call_log s'))"
    using a by (simp add: arc_inv_def split: if_splits)
  show "ip4_multicast_arc_added s' \<noteq> 0 \<longleftrightarrow> length (filter is_route_call (call_log s')) = 1"
    using a by (simp add: arc_inv_def split: if_splits)
qed


lemma tap_inject_reverse_entries:
  assumes t: "tap_inject env name iface_id protos s = Some (err, s')"
    and i: "\<forall>m \<in> set (tap_to_iface (g_rm s)). iface m \<noteq> NOT 0"
  shows "\<forall>m \<in> set (tap_to_iface (g_rm s')). iface m \<noteq> NOT 0"
proof (cases err)
  case (Some e)
  with t have "g_rm s' = g_rm s" by (simp add: tap_inject_error_rm)
  with i show ?thesis by simp
next
  case None
  have c: "tap_inject_checks name iface_id protos = None"
    using t None by (auto simp: tap_inject_def split: option.splits)
  then have ne: "iface_id \<noteq> NOT 0"
    by (auto simp: tap_inject_checks_def split: if_splits)
  obtain e tap_id cs where d: "do_tap_connect env (the name) iface_id = (e, tap_id, cs)"
    by (cases "do_tap_connect env (the name) iface_id") auto
  define s1 where "s1 = s\<lparr>call_log := call_log s @ cs\<rparr>"
  define s2 where "s2 = tap_inject_open_ns env protos tap_id s1"
  define s3 where "s3 = (if protos AND PROTO_BIT_IGMP4 \<noteq> 0
                         then add_ip4_multicast_arc env s2 else s2)"
  define s4 where "s4 = s3\<lparr>call_log := call_log s3 @ tap_inject_register protos\<rparr>"
  have m2: "tap_to_iface (g_rm s2) = tap_to_iface (g_rm s)"
    by (simp add: s2_def s1_def tap_inject_open_ns_def Let_def)
  have m3: "tap_to_iface (g_rm s3) = tap_to_iface (g_rm s)"
  proof (cases "ip4_multicast_arc_added s2 = 0")
    case True
    then show ?thesis using m2 add_ip4_multicast_arc_first(3) [OF True, of env]
      by (simp add: s3_def)
  next
    case False
    then show ?thesis using m2 by (simp add: s3_def add_ip4_multicast_arc_later)
  qed
  have m4: "tap_to_iface (g_rm s4) = tap_to_iface (g_rm s)"
    using m3 by (simp add: s4_def)
  from t None c d obtain rm' where
    k: "tap_inject_commit env iface_id tap_id protos (g_rm s4) = Some rm'" and
    s': "s' = s4\<lparr>g_rm := rm'\<rparr>"
    unfolding s4_def s3_def s2_def s1_def
    by (auto simp: tap_inject_def Let_def split: option.splits)
  from k have "tap_to_iface rm' =
      tap_to_iface (g_rm s4) @ [\<lparr>tap = if_nametoindex_result env, iface = iface_id\<rparr>]"
    by (auto simp: tap_inject_commit_def insert_tap_to_iface_def split: if_splits)
  with m4 s' i ne show ?thesis by auto
qed

lemma run_events_reverse_entries:
  "run_events evs s = Some s' \<Longrightarrow>
   \<forall>m \<in> set (tap_to_iface (g_rm s)). iface m \<noteq> NOT 0 \<Longrightarrow>
   \<forall>m \<in> set (tap_to_iface (g_rm s')). iface m \<noteq> NOT 0"
proof (induction evs s rule: run_events.induct)
  case (1 s)
  then show ?case by simp
next
  case (2 sw_if_index rest s)
  then show ?case by (simp add: interface_add_del_def)
next
  case (3 env name iface_id protos rest s)
  from "3.prems"(1) obtain err s1 where
    t: "tap_inject env name iface_id protos s = Some (err, s1)" and
    r: "run_events rest s1 = Some s'"
    by (auto split: option.splits)
  from tap_inject_reverse_entries [OF t "3.prems"(2)] "3.IH" [OF t refl r] show ?case by simp
qed

lemma reachable_reverse_entries:
  "run_events evs initial_state = Some s \<Longrightarrow>
   \<forall>m \<in> set (tap_to_iface (g_rm s)). iface m \<noteq> NOT 0"
  using run_events_reverse_entries [of evs initial_state s]
  by (simp add: initial_state_def)

lemma ex_events_run:
  "\<exists>s'. run_events ex_events initial_state = Some s' \<and> ip4_multicast_arc_added s' = 1"
proof -
  have c7: "tap_inject_checks (Some nm) 1 7 = None" "tap_inject_checks (Some nm) 0 7 = None" for nm
    by (simp_all add: tap_inject_checks_def PROTO_BIT_values)
  show ?thesis
    by (simp add: ex_events_def initial_state_def interface_add_del_def vec_validate_def
        tap_inject_def c7 ex_do_tap_connect tap_inject_open_ns_def ex_setup_env_sel add_ip4_multicast_arc_def
        ip4_lookup_next_index_def tap_inject_register_def tap_inject_commit_def
        insert_tap_to_iface_def PROTO_BIT_values)
qed


text \<open>Two diversions with IGMP4 enabled, one after the other: one route call in all.\<close>

theorem multicast_arc_installed_once_witness:
  "ip4_multicast_arc_added ex_state = 0 \<and>
   ip4_multicast_arc_added (add_ip4_multicast_arc (ex_setup_env 7 0) ex_state) = 1 \<and>
   add_ip4_multicast_arc (ex_setup_env 8 0) (add_ip4_multicast_arc (ex_setup_env 7 0) ex_state) =
     add_ip4_multicast_arc (ex_setup_env 7 0) ex_state \<and>
   (\<exists>s'. run_events ex_events initial_state = Some s' \<and>
         length (filter is_route_call (call_log s')) = 1)"
proof -
  let ?e = "ex_setup_env 7 0"
  have z: "ip4_multicast_arc_added ex_state = 0" by (simp add: ex_state_rm)
  note A = multicast_arc_installed_once [of ex_state ?e]
  from A z have one: "ip4_multicast_arc_added (add_ip4_multicast_arc ?e ex_state) = 1"
    by blast
  then have nz: "ip4_multicast_arc_added (add_ip4_multicast_arc ?e ex_state) \<noteq> 0" by simp
  from multicast_arc_installed_once [of "add_ip4_multicast_arc ?e ex_state" "ex_setup_env 8 0"] nz
  have again: "add_ip4_multicast_arc (ex_setup_env 8 0) (add_ip4_multicast_arc ?e ex_state) =
     add_ip4_multicast_arc ?e ex_state"
    by blast
  from ex_events_run obtain s' where
    r: "run_events ex_events initial_state = Some s'" and l: "ip4_multicast_arc_added s' = 1"
    by blast
  from multicast_arc_installed_once [of ex_state ?e ?e ex_events s'] r l
  have "length (filter is_route_call (call_log s')) = 1" by simp
  with r have "\<exists>s'. run_events ex_events initial_state = Some s' \<and>
         length (filter is_route_call (call_log s')) = 1" by blast
  with z one again show ?thesis by (intro conjI)
qed

text \<open>
  Claim C1 as stated fails. The setup command succeeds for interface 1 with ARP enabled,
  and the forwarder has given the shadow interface the index 0: the interface has a
  shadow that is not the sentinel, its protocol set is not empty and holds the ARP bit,
  yet an ARP packet that arrives on it goes on untapped.
\<close>

theorem classification_shadow_zero_counterexample:
  "tap_inject (ex_setup_env 0 0) (Some ''tap0'') 1 PROTO_BIT_ARP ex_state =
     Some (None,
       \<lparr>g_rm = ex_rm 0 PROTO_BIT_ARP, ip4_next_index = NOT 0, ip4_multicast_arc_added = 0,
        call_log =
          [Vnet_tap_connect ''tap0'' (Mac 0x02 0 0 0 0 0x01), Set_int_l2_mode_xc 0 1,
           Vnet_sw_interface_set_flags 0 VNET_SW_INTERFACE_FLAG_ADMIN_UP, Netns_open,
           Ethernet_register_input_type ETHERNET_TYPE_ARP Tap_inject_arp_node]\<rparr>) \<and>
   rx_in_tables (ex_rm 0 PROTO_BIT_ARP) (ex_buffer (Mac 0x11 0x11 0x11 0x11 0x11 0x11) 2) \<and>
   spec_redirects (ex_rm 0 PROTO_BIT_ARP) ERROR_INJECT_ARP
     (ex_buffer (Mac 0x11 0x11 0x11 0x11 0x11 0x11) 2) \<and>
   tap_inject_arp ex_env (ex_rm 0 PROTO_BIT_ARP)
     [ex_buffer (Mac 0x11 0x11 0x11 0x11 0x11 0x11) 2] =
   Some \<lparr>enqueued = [(ex_buffer (Mac 0x11 0x11 0x11 0x11 0x11 0x11) 2, NEXT_UNTAPPED)],
         calls_made = [], count = 0\<rparr>"
proof (intro conjI)
  let ?b = "ex_buffer (Mac 0x11 0x11 0x11 0x11 0x11 0x11) 2"
  let ?rm = "ex_rm 0 PROTO_BIT_ARP"
  have c: "tap_inject_checks (Some ''tap0'') 1 1 = None"
    by (simp add: tap_inject_checks_def PROTO_BIT_values)
  have s: "ex_state = \<lparr>g_rm = \<lparr>iface_to_tap = [NOT 0, NOT 0], iface_to_protos = [0, 0],
              tap_to_iface = [], ns_index = NOT 0\<rparr>,
      ip4_next_index = NOT 0, ip4_multicast_arc_added = 0, call_log = []\<rparr>"
    by (simp add: ex_state_def initial_state_def interface_add_del_def vec_validate_def)
  show "tap_inject (ex_setup_env 0 0) (Some ''tap0'') 1 PROTO_BIT_ARP ex_state =
     Some (None,
       \<lparr>g_rm = ?rm, ip4_next_index = NOT 0, ip4_multicast_arc_added = 0,
        call_log =
          [Vnet_tap_connect ''tap0'' (Mac 0x02 0 0 0 0 0x01), Set_int_l2_mode_xc 0 1,
           Vnet_sw_interface_set_flags 0 VNET_SW_INTERFACE_FLAG_ADMIN_UP, Netns_open,
           Ethernet_register_input_type ETHERNET_TYPE_ARP Tap_inject_arp_node]\<rparr>)"
    unfolding PROTO_BIT_values
    by (simp add: tap_inject_def c ex_do_tap_connect s tap_inject_open_ns_def
        tap_inject_register_def tap_inject_commit_def insert_tap_to_iface_def
        PROTO_BIT_values ex_setup_env_sel ex_rm_def)
  show "rx_in_tables ?rm ?b" by (rule ex_rx_in_tables)
  show "spec_redirects ?rm ERROR_INJECT_ARP ?b"
    by (simp add: spec_redirects_def ex_shadow_of ex_enabled determined_proto_bit_def
        PROTO_BIT_values)
  have "tap_inject_buffer ex_env ?rm ERROR_INJECT_ARP ?b = Some (?b, NEXT_UNTAPPED, [])"
    by (simp add: tap_inject_buffer_def ex_rm_def ex_buffer_def)
  then show "tap_inject_arp ex_env ?rm [?b] =
      Some \<lparr>enqueued = [(?b, NEXT_UNTAPPED)], calls_made = [], count = 0\<rparr>"
    by (simp add: tap_inject_arp_def tap_inject_func_def NEXT_distinct [symmetric])
qed

end
